theory Spec2Isabelle
  imports Main "HOL-Library.Word"
begin

unbundle bit_operations_syntax

section \<open>JavaScript numbers, bitwise operators and DataView\<close>

text \<open>
  The packet code works on JavaScript numbers. Every number that occurs in it is an
  integer, so a number is an \<open>int\<close>. The bitwise operators \<open>&\<close>, \<open>|\<close>, \<open><<\<close> and
  \<open>>>\<close> first convert their operands to 32-bit integers (ToInt32, that is reduction
  modulo \<open>2 ^ 32\<close>) and give a \<^emph>\<open>signed\<close> 32-bit result; a shift count is taken modulo 32,
  and \<open>>>\<close> propagates the sign bit.
\<close>

type_synonym byte = "8 word"

definition ToInt32 :: "int \<Rightarrow> 32 word" where
  "ToInt32 x = word_of_int x"

definition js_and :: "int \<Rightarrow> int \<Rightarrow> int" where
  "js_and a b = sint (ToInt32 a AND ToInt32 b)"

definition js_or :: "int \<Rightarrow> int \<Rightarrow> int" where
  "js_or a b = sint (ToInt32 a OR ToInt32 b)"

definition js_shl :: "int \<Rightarrow> int \<Rightarrow> int" where
  "js_shl a n = sint (push_bit (nat (n mod 32)) (ToInt32 a))"

definition js_sar :: "int \<Rightarrow> int \<Rightarrow> int" where
  "js_sar a n = sint (signed_drop_bit (nat (n mod 32)) (ToInt32 a))"

text \<open>
  What the code throws: a failed \<open>assert\<close>, and the \<open>RangeError\<close> of a \<open>DataView\<close>
  access outside the bounds of its buffer. \<open>assert\<close> itself
  (\<open>shared/assert.ts\<close>) is not among the sources; it is taken to throw when its
  condition is false, as the spec says of the control-bit check. The state that an
  exception leaves behind is not part of a result.
\<close>

datatype error = AssertionFailed | RangeError

text \<open>
  \<open>DataView.getUint32(byteOffset, littleEndian)\<close> and
  \<open>DataView.setUint32(byteOffset, value, littleEndian)\<close> on the bytes the view shows.
  Both throw a \<open>RangeError\<close> unless the four bytes lie inside the view; \<open>setUint32\<close>
  stores the value modulo \<open>2 ^ 32\<close>, \<open>getUint32\<close> gives an unsigned number.
\<close>

definition uint32_to_bytes :: "bool \<Rightarrow> 32 word \<Rightarrow> byte list" where
  "uint32_to_bytes littleEndian v =
     (let bs = [ucast v, ucast (drop_bit 8 v), ucast (drop_bit 16 v), ucast (drop_bit 24 v)]
      in if littleEndian then bs else rev bs)"

fun bytes_to_uint32_le :: "byte list \<Rightarrow> 32 word" where
  "bytes_to_uint32_le [] = 0"
| "bytes_to_uint32_le (b # bs) = ucast b OR push_bit 8 (bytes_to_uint32_le bs)"

definition bytes_to_uint32 :: "bool \<Rightarrow> byte list \<Rightarrow> 32 word" where
  "bytes_to_uint32 littleEndian bs = bytes_to_uint32_le (if littleEndian then bs else rev bs)"

definition in_view :: "byte list \<Rightarrow> int \<Rightarrow> nat \<Rightarrow> bool" where
  "in_view d byteOffset n = (0 \<le> byteOffset \<and> byteOffset + int n \<le> int (length d))"

definition DataView_getUint32 :: "byte list \<Rightarrow> int \<Rightarrow> bool \<Rightarrow> error + int" where
  "DataView_getUint32 d byteOffset littleEndian =
     (if in_view d byteOffset 4
      then Inr (uint (bytes_to_uint32 littleEndian (take 4 (drop (nat byteOffset) d))))
      else Inl RangeError)"

definition DataView_setUint32 :: "byte list \<Rightarrow> int \<Rightarrow> int \<Rightarrow> bool \<Rightarrow> error + byte list" where
  "DataView_setUint32 d byteOffset v littleEndian =
     (if in_view d byteOffset 4
      then Inr (take (nat byteOffset) d @ uint32_to_bytes littleEndian (word_of_int v)
                @ drop (nat byteOffset + 4) d)
      else Inl RangeError)"

definition DataView_setUint8 :: "byte list \<Rightarrow> int \<Rightarrow> int \<Rightarrow> error + byte list" where
  "DataView_setUint8 d byteOffset v =
     (if in_view d byteOffset 1 then Inr (d[nat byteOffset := word_of_int v])
      else Inl RangeError)"

section \<open>Buffers, the console and the packet's message data\<close>

text \<open>
  Packets refer to their byte buffer, and two packets may refer to the same one, so
  buffers live in a store: \<open>mem\<close> maps a reference to the bytes of that buffer, and the
  references below \<open>allocated\<close> are the ones handed out so far. \<open>console\<close> collects what
  the code writes with \<open>console.warn\<close>.
\<close>

type_synonym ref = nat

record world =
  mem :: "ref \<Rightarrow> byte list"
  allocated :: nat
  console :: "string list"

definition getUint32 :: "world \<Rightarrow> ref \<Rightarrow> int \<Rightarrow> bool \<Rightarrow> error + int" where
  "getUint32 w r byteOffset littleEndian = DataView_getUint32 (mem w r) byteOffset littleEndian"

definition setUint32 :: "world \<Rightarrow> ref \<Rightarrow> int \<Rightarrow> int \<Rightarrow> bool \<Rightarrow> error + world" where
  "setUint32 w r byteOffset v littleEndian =
     (case DataView_setUint32 (mem w r) byteOffset v littleEndian of
        Inl e \<Rightarrow> Inl e
      | Inr d \<Rightarrow> Inr (w\<lparr>mem := (mem w)(r := d)\<rparr>))"

definition setUint8 :: "world \<Rightarrow> ref \<Rightarrow> int \<Rightarrow> int \<Rightarrow> error + world" where
  "setUint8 w r byteOffset v =
     (case DataView_setUint8 (mem w r) byteOffset v of
        Inl e \<Rightarrow> Inl e
      | Inr d \<Rightarrow> Inr (w\<lparr>mem := (mem w)(r := d)\<rparr>))"

text \<open>
  The fields of \<open>MessageData\<close> that \<open>Packet.ts\<close> reads and writes. \<open>buffer\<close> is the
  reference of the buffer that the packet's \<open>data\<close> view shows.
\<close>

record MessageData =
  buffer :: ref
  dataPosition :: int
  packetSize :: int
  isReliable :: bool
  isPartOfMessage :: bool
  obfuscationLevel :: int
  sequenceNumber :: int
  messageNumber :: int
  packetPosition :: int
  messagePartNumber :: int

text \<open>\<open>Packet.PacketPosition\<close> and \<open>Packet.ObfuscationLevel\<close>.\<close>

definition ONLY :: int where "ONLY = 0"
definition FIRST :: int where "FIRST = 2"
definition MIDDLE :: int where "MIDDLE = 3"
definition LAST :: int where "LAST = 1"

definition NoObfuscation :: int where "NoObfuscation = 0"

section \<open>The header layout constants\<close>

text \<open>
  \<open>Packet.ts\<close> takes every mask and offset of the header from the \<open>UDT\<close> namespace,
  whose file is not among the sources. The packet functions below therefore take the
  constants as a parameter \<open>U\<close>, and the theorems about them hold for every choice of
  the constants unless they say otherwise.
\<close>

record udt =
  CONTROL_BIT_MASK :: int
  RELIABILITY_BIT_MASK :: int
  MESSAGE_BIT_MASK :: int
  OBFUSCATION_LEVEL_BIT_MASK :: int
  OBFUSCATION_LEVEL_OFFSET :: int
  BIT_FIELD_MASK :: int
  SEQUENCE_NUMBER_BIT_MASK :: int
  MESSAGE_NUMBER_MASK :: int
  PACKET_POSITION_OFFSET :: int
  LITTLE_ENDIAN :: bool
  MAX_PACKET_SIZE :: int

text \<open>
  Modelled from the spec: the values of the \<open>UDT\<close> constants (\<open>UDT.ts\<close> is missing).
  The spec gives the first header word as sequence number, control bit, reliability
  bit, message bit and 2-bit obfuscation level, the second as a 27-bit message number
  with the 2-bit position in bits 30 and 31, all little-endian, and
  \<open>BasePacket.unit.test.js\<close> takes the maximum payload size from \<open>UDT.MAX_PACKET_SIZE\<close>.
  The spec's widths for the first word (29 + 1 + 1 + 1 + 2 bits) do not fit 32 bits,
  so this instance, which only the concrete evaluations use, gives the five flag bits
  the top of the word (control 31, reliability 30, message 29, obfuscation 28 and 27)
  and the sequence number the 27 bits below. It is a layout under which the two
  received packets of \<open>Packet.unit.test.js\<close> decode to what that test expects. The
  value of \<open>MAX_PACKET_SIZE\<close> is not in the sources either; 1464 stands for it.
\<close>

definition UDT :: udt where
  "UDT = \<lparr> CONTROL_BIT_MASK = 0x80000000,
           RELIABILITY_BIT_MASK = 0x40000000,
           MESSAGE_BIT_MASK = 0x20000000,
           OBFUSCATION_LEVEL_BIT_MASK = 0x18000000,
           OBFUSCATION_LEVEL_OFFSET = 27,
           BIT_FIELD_MASK = 0xF8000000,
           SEQUENCE_NUMBER_BIT_MASK = 0x07FFFFFF,
           MESSAGE_NUMBER_MASK = 0x07FFFFFF,
           PACKET_POSITION_OFFSET = 30,
           LITTLE_ENDIAN = True,
           MAX_PACKET_SIZE = 1464 \<rparr>"

section \<open>Packet.ts\<close>

text \<open>\<open>Packet.totalHeaderSize(isPartOfMessage)\<close>.\<close>

definition totalHeaderSize :: "bool \<Rightarrow> int" where
  "totalHeaderSize partOfMessage = 4 + (if partOfMessage then 8 else 0)"

text \<open>
  \<open>#writeHeader(isOverwriting)\<close>. The two header words it serializes are named as in
  the source.
\<close>

definition seqNumBitField_of :: "udt \<Rightarrow> MessageData \<Rightarrow> int" where
  "seqNumBitField_of U md =
     (let s0 = sequenceNumber md;
          s1 = (if isReliable md then js_or s0 (RELIABILITY_BIT_MASK U) else s0);
          s2 = (if isPartOfMessage md then js_or s1 (MESSAGE_BIT_MASK U) else s1)
      in if obfuscationLevel md \<noteq> NoObfuscation
         then js_or s2 (js_shl (obfuscationLevel md) (OBFUSCATION_LEVEL_OFFSET U))
         else s2)"

definition messageNumberAndBitField_of :: "udt \<Rightarrow> MessageData \<Rightarrow> int" where
  "messageNumberAndBitField_of U md =
     js_or (messageNumber md) (js_shl (packetPosition md) (PACKET_POSITION_OFFSET U))"

definition writeMessageWords :: "udt \<Rightarrow> world \<Rightarrow> MessageData \<Rightarrow> error + world \<times> MessageData" where
  "writeMessageWords U w md =
     (case setUint32 w (buffer md) (dataPosition md) (messageNumberAndBitField_of U md)
             (LITTLE_ENDIAN U) of
        Inl e \<Rightarrow> Inl e
      | Inr w1 \<Rightarrow>
          (let md1 = md\<lparr>dataPosition := dataPosition md + 4\<rparr>
           in case setUint32 w1 (buffer md1) (dataPosition md1) (messagePartNumber md1)
                     (LITTLE_ENDIAN U) of
                Inl e \<Rightarrow> Inl e
              | Inr w2 \<Rightarrow> Inr (w2, md1\<lparr>dataPosition := dataPosition md1 + 4\<rparr>)))"

definition writeHeader :: "udt \<Rightarrow> bool \<Rightarrow> world \<Rightarrow> MessageData \<Rightarrow> error + world \<times> MessageData" where
  "writeHeader U isOverwriting w md =
     (if js_and (sequenceNumber md) (BIT_FIELD_MASK U) \<noteq> 0 then Inl AssertionFailed
      else
        (let originalDataPosition = dataPosition md;
             md0 = (if isOverwriting then md\<lparr>dataPosition := 0\<rparr> else md)
         in case setUint32 w (buffer md0) (dataPosition md0) (seqNumBitField_of U md0)
                   (LITTLE_ENDIAN U) of
              Inl e \<Rightarrow> Inl e
            | Inr w1 \<Rightarrow>
                (let md1 = md0\<lparr>dataPosition := dataPosition md0 + 4\<rparr>
                 in case (if isPartOfMessage md1 then writeMessageWords U w1 md1
                          else Inr (w1, md1)) of
                      Inl e \<Rightarrow> Inl e
                    | Inr (w2, md2) \<Rightarrow>
                        Inr (w2, if isOverwriting
                                 then md2\<lparr>dataPosition := originalDataPosition\<rparr>
                                 else md2))))"

text \<open>\<open>#readHeader()\<close>. It only reads the buffer.\<close>

definition readMessageWords :: "udt \<Rightarrow> world \<Rightarrow> MessageData \<Rightarrow> error + MessageData" where
  "readMessageWords U w md =
     (case getUint32 w (buffer md) (dataPosition md) (LITTLE_ENDIAN U) of
        Inl e \<Rightarrow> Inl e
      | Inr messageNumberAndBitField \<Rightarrow>
          (let md1 = md\<lparr>dataPosition := dataPosition md + 4,
                         messageNumber := js_and messageNumberAndBitField (MESSAGE_NUMBER_MASK U),
                         packetPosition :=
                           js_sar messageNumberAndBitField (PACKET_POSITION_OFFSET U)\<rparr>
           in case getUint32 w (buffer md1) (dataPosition md1) (LITTLE_ENDIAN U) of
                Inl e \<Rightarrow> Inl e
              | Inr part \<Rightarrow>
                  Inr (md1\<lparr>messagePartNumber := part, dataPosition := dataPosition md1 + 4\<rparr>)))"

definition readHeader :: "udt \<Rightarrow> world \<Rightarrow> MessageData \<Rightarrow> error + MessageData" where
  "readHeader U w md =
     (case getUint32 w (buffer md) (dataPosition md) (LITTLE_ENDIAN U) of
        Inl e \<Rightarrow> Inl e
      | Inr seqNumBitField \<Rightarrow>
          if js_and seqNumBitField (CONTROL_BIT_MASK U) \<noteq> 0 then Inl AssertionFailed
          else
            (let md1 = md\<lparr>isReliable := 0 < js_and seqNumBitField (RELIABILITY_BIT_MASK U),
                           isPartOfMessage := 0 < js_and seqNumBitField (MESSAGE_BIT_MASK U),
                           obfuscationLevel :=
                             js_sar (js_and seqNumBitField (OBFUSCATION_LEVEL_BIT_MASK U))
                               (OBFUSCATION_LEVEL_OFFSET U),
                           sequenceNumber := js_and seqNumBitField (SEQUENCE_NUMBER_BIT_MASK U),
                           dataPosition := dataPosition md + 4\<rparr>
             in if isPartOfMessage md1 then readMessageWords U w md1
                else Inr (md1\<lparr>messageNumber := 0, packetPosition := ONLY,
                              messagePartNumber := 0\<rparr>)))"

text \<open>\<open>writeMessageNumber\<close> and \<open>writeSequenceNumber\<close>.\<close>

definition writeMessageNumber ::
  "udt \<Rightarrow> int \<Rightarrow> int \<Rightarrow> int \<Rightarrow> world \<Rightarrow> MessageData \<Rightarrow> error + world \<times> MessageData" where
  "writeMessageNumber U messageNumber' position messagePartNumber' w md =
     writeHeader U True w
       (md\<lparr>isPartOfMessage := True, messageNumber := messageNumber',
           packetPosition := position, messagePartNumber := messagePartNumber'\<rparr>)"

definition writeSequenceNumber ::
  "udt \<Rightarrow> int \<Rightarrow> world \<Rightarrow> MessageData \<Rightarrow> error + world \<times> MessageData" where
  "writeSequenceNumber U sequenceNumber' w md =
     writeHeader U True w (md\<lparr>sequenceNumber := sequenceNumber'\<rparr>)"

section \<open>Constructing packets\<close>

text \<open>
  Modelled from the spec: \<open>BasePacket\<close>'s three constructors and the initial values of
  \<open>MessageData\<close> (\<open>BasePacket.ts\<close> and \<open>MessageData.ts\<close> are missing).

  \<^item> By the spec and \<open>BasePacket.unit.test.js\<close>, \<open>new BasePacket(size)\<close> allocates a
    zero-filled buffer of \<open>size\<close> bytes, of the maximum payload size
    \<open>UDT.MAX_PACKET_SIZE\<close> when \<open>size\<close> is \<open>-1\<close>, with the cursor at 0. A packet's buffer
    has a fixed capacity within the transport's maximum payload size, and only valid
    sizes give a packet: the constructor asserts that the size is at least 0 and at
    most \<open>BasePacket.maxPayloadSize()\<close>.
  \<^item> \<open>new BasePacket(data, size, senderSockAddr)\<close> shows the received bytes, with the
    cursor at 0.
  \<^item> \<open>new BasePacket(packet)\<close> gives the new packet a \<open>MessageData\<close> object of its own
    (\<open>BasePacket.unit.test.js\<close> expects the two not to be the same object) whose fields
    are those of the other packet's. Among them is the reference to the byte buffer:
    the documentation of \<open>Packet\<close>'s constructor in \<open>Packet.ts\<close> says that the packet
    data of the other packet is reused by reference and not copied, so both packets
    show the same buffer. Here the source is followed against the spec, which says
    that cloning duplicates the buffer.
\<close>

definition new_MessageData :: MessageData where
  "new_MessageData =
     \<lparr> buffer = 0, dataPosition = 0, packetSize = 0, isReliable = False,
       isPartOfMessage = False, obfuscationLevel = NoObfuscation, sequenceNumber = 0,
       messageNumber = 0, packetPosition = ONLY, messagePartNumber = 0 \<rparr>"

definition maxPayloadSize :: "udt \<Rightarrow> int" where
  "maxPayloadSize U = MAX_PACKET_SIZE U"

definition BasePacket_new :: "udt \<Rightarrow> int \<Rightarrow> world \<Rightarrow> error + world \<times> MessageData" where
  "BasePacket_new U sz w =
     (let n = (if sz = -1 then maxPayloadSize U else sz)
      in if n < 0 \<or> maxPayloadSize U < n then Inl AssertionFailed
         else Inr (w\<lparr>mem := (mem w)(allocated w := replicate (nat n) 0),
                     allocated := Suc (allocated w)\<rparr>,
                   new_MessageData\<lparr>buffer := allocated w, packetSize := n\<rparr>))"

definition BasePacket_received :: "ref \<Rightarrow> int \<Rightarrow> MessageData" where
  "BasePacket_received data sz = new_MessageData\<lparr>buffer := data, packetSize := sz\<rparr>"

definition BasePacket_copy :: "MessageData \<Rightarrow> MessageData" where
  "BasePacket_copy other =
     new_MessageData
       \<lparr>buffer := buffer other, dataPosition := dataPosition other,
        packetSize := packetSize other, isReliable := isReliable other,
        isPartOfMessage := isPartOfMessage other, obfuscationLevel := obfuscationLevel other,
        sequenceNumber := sequenceNumber other, messageNumber := messageNumber other,
        packetPosition := packetPosition other, messagePartNumber := messagePartNumber other\<rparr>"

text \<open>
  The three modes of \<open>Packet\<close>'s constructor: \<open>new Packet(size, isReliable,
  isPartOfMessage)\<close>, \<open>new Packet(data, size, senderSockAddr)\<close> (also
  \<open>Packet.fromReceivedPacket\<close>) and \<open>new Packet(packet)\<close> (also \<open>Packet.createCopy\<close>).
\<close>

definition Packet_new :: "udt \<Rightarrow> int \<Rightarrow> bool \<Rightarrow> bool \<Rightarrow> world \<Rightarrow> error + world \<times> MessageData" where
  "Packet_new U sz reliable partOfMessage w =
     (case BasePacket_new U (if sz = -1 then -1 else totalHeaderSize partOfMessage + sz) w of
        Inl e \<Rightarrow> Inl e
      | Inr (w1, md) \<Rightarrow>
          writeHeader U False w1 (md\<lparr>isReliable := reliable, isPartOfMessage := partOfMessage\<rparr>))"

definition undo_obfuscation_warning :: string where
  "undo_obfuscation_warning = ''Packet() : Undo obfuscation : Not implemented!''"

definition fromReceivedPacket :: "udt \<Rightarrow> ref \<Rightarrow> int \<Rightarrow> world \<Rightarrow> error + world \<times> MessageData" where
  "fromReceivedPacket U data sz w =
     (case readHeader U w (BasePacket_received data sz) of
        Inl e \<Rightarrow> Inl e
      | Inr md \<Rightarrow>
          Inr (if obfuscationLevel md \<noteq> NoObfuscation
               then w\<lparr>console := console w @ [undo_obfuscation_warning]\<rparr>
               else w,
               md))"

definition createCopy :: "MessageData \<Rightarrow> MessageData" where
  "createCopy other =
     (let md = BasePacket_copy other
      in md\<lparr>dataPosition := totalHeaderSize (isPartOfMessage md)\<rparr>)"

text \<open>A store with no buffer allocated and nothing logged.\<close>

definition empty_world :: world where
  "empty_world = \<lparr> mem = (\<lambda>r. []), allocated = 0, console = [] \<rparr>"

section \<open>The node registry\<close>

text \<open>
  Modelled from the spec: the node registry \<open>NodeList\<close> with its operations
  \<open>addOrUpdateNode\<close>, \<open>soloNodeOfType\<close>, \<open>reset\<close>, \<open>muteNodeBySessionID\<close> and
  \<open>kickNodeBySessionID\<close> (\<open>NodeList.ts\<close>, \<open>LimitedNodeList.ts\<close>, \<open>Node.ts\<close>,
  \<open>NodePermissions.ts\<close> and \<open>Uuid.ts\<close> are missing; only \<open>NodeList.unit.test.js\<close> is
  among the sources). The registry owns the nodes, keyed by identity, the interest
  set, the local session identity and local numeric ID, and the caller's permission
  bits. \<open>reset\<close> clears all nodes and resets the local session identity to null.
  The privileged actions validate, in this order, that the target identity is not
  null, not the caller's own and not the "self" sentinel, that the caller holds the
  administrator permission and, for mute, that an audio-mixer node exists; a failing
  precondition logs its warning and the operation ends without sending anything.
  The three identity checks share one warning per operation, as the unit test expects
  (\<open>called with an invalid ID\<close>). The spec does not say which permission bit is the
  administrator's, so the operations take its mask \<open>canKick\<close> as a parameter.
\<close>

type_synonym uuid = nat

definition Uuid_NULL :: uuid where "Uuid_NULL = 0"

definition AVATAR_SELF_ID :: uuid where "AVATAR_SELF_ID = 1"

datatype NodeType = EntityServer | AudioMixer | AvatarMixer | AssetServer | MessagesMixer

record Node =
  nodeType :: NodeType
  nodeUUID :: uuid
  publicSocket :: "nat \<times> nat"
  localSocket :: "nat \<times> nat"
  localID :: nat
  isReplicated :: bool
  isUpstream :: bool
  connectionSecret :: uuid
  nodePermissions :: nat

record NodeList =
  nodes :: "Node list"
  nodeInterestSet :: "NodeType set"
  sessionUUID :: uuid
  sessionLocalID :: nat
  permissions :: nat

datatype warning =
    MuteInvalidID | MuteNoPermission | MuteNoAudioMixer
  | KickInvalidID | KickNoPermission

text \<open>What an operation of the registry does to the outside: a warning, or a packet sent.\<close>

datatype nl_effect =
    Warn warning
  | SendMuteRequest uuid uuid
  | SendKickRequest uuid

definition addOrUpdateNode :: "Node \<Rightarrow> NodeList \<Rightarrow> NodeList" where
  "addOrUpdateNode n nl =
     (if \<exists>m \<in> set (nodes nl). nodeUUID m = nodeUUID n
      then nl\<lparr>nodes := map (\<lambda>m. if nodeUUID m = nodeUUID n then n else m) (nodes nl)\<rparr>
      else nl\<lparr>nodes := nodes nl @ [n]\<rparr>)"

definition soloNodeOfType :: "NodeType \<Rightarrow> NodeList \<Rightarrow> Node option" where
  "soloNodeOfType t nl = find (\<lambda>n. nodeType n = t) (nodes nl)"

definition nodeWithUUID :: "uuid \<Rightarrow> NodeList \<Rightarrow> Node option" where
  "nodeWithUUID u nl = find (\<lambda>n. nodeUUID n = u) (nodes nl)"

definition reset :: "string \<Rightarrow> bool \<Rightarrow> NodeList \<Rightarrow> NodeList" where
  "reset reason isDomainServerInitiated nl = nl\<lparr>nodes := [], sessionUUID := Uuid_NULL\<rparr>"

definition getThisNodeCanKick :: "nat \<Rightarrow> NodeList \<Rightarrow> bool" where
  "getThisNodeCanKick canKick nl = (and (permissions nl) canKick \<noteq> 0)"

definition muteNodeBySessionID :: "nat \<Rightarrow> uuid \<Rightarrow> NodeList \<Rightarrow> NodeList \<times> nl_effect list" where
  "muteNodeBySessionID canKick nodeID nl =
     (if nodeID = Uuid_NULL \<or> nodeID = sessionUUID nl \<or> nodeID = AVATAR_SELF_ID
      then (nl, [Warn MuteInvalidID])
      else if \<not> getThisNodeCanKick canKick nl then (nl, [Warn MuteNoPermission])
      else (case soloNodeOfType AudioMixer nl of
              None \<Rightarrow> (nl, [Warn MuteNoAudioMixer])
            | Some audioMixer \<Rightarrow> (nl, [SendMuteRequest nodeID (nodeUUID audioMixer)])))"

definition kickNodeBySessionID :: "nat \<Rightarrow> uuid \<Rightarrow> NodeList \<Rightarrow> NodeList \<times> nl_effect list" where
  "kickNodeBySessionID canKick nodeID nl =
     (if nodeID = Uuid_NULL \<or> nodeID = sessionUUID nl \<or> nodeID = AVATAR_SELF_ID
      then (nl, [Warn KickInvalidID])
      else if \<not> getThisNodeCanKick canKick nl then (nl, [Warn KickNoPermission])
      else (nl, [SendKickRequest nodeID]))"

section \<open>DomainServer.ts\<close>

text \<open>
  The connection state machine of \<open>DomainServer\<close>. Its private fields are the record's
  fields; \<open>onStateChanged\<close> says whether a callback is set, and
  \<open>domainCheckInTimer\<close> is the timer handle, \<open>None\<close> for null. The timers of the event
  loop that concern the object are part of the state: \<open>timers\<close> are the pending
  one-second timers that \<open>#sendDomainServerCheckIns\<close> has set (and that have neither
  fired nor been cleared), \<open>starts\<close> counts the pending callbacks that \<open>connect\<close> has
  passed to \<open>setTimeout(..., 0)\<close>, and \<open>nextTimer\<close> is the next handle that \<open>setTimeout\<close>
  returns. What the object does to its collaborators
  (the console, the timers, the \<open>DomainHandler\<close>, the \<open>AddressManager\<close>, the node list
  and the callback) is appended to \<open>trace\<close>, in the order of the calls. A collaborator
  is taken to return without throwing and without calling back into the object, with
  one exception that the model keeps: \<open>DomainHandler.disconnect\<close> may emit
  \<open>disconnectedFromDomain\<close> before it returns, and then the slot that the constructor
  connected runs; whether it does is the parameter \<open>emits\<close>.
\<close>

datatype ConnectionState = DISCONNECTED | CONNECTING | CONNECTED | REFUSED | ERROR

text \<open>
  The value passed as \<open>location\<close> (a string or anything else) and the value assigned to
  \<open>onStateChanged\<close>.
\<close>

datatype argument = Str string | NotAString

datatype callback = Function | Null | NotAFunction

datatype effect =
    ConsoleError string
  | ConsoleWarn string
  | ClearTimeout nat
  | DomainHandlerDisconnect string bool
  | OnStateChanged ConnectionState string
  | HandleLookupString string
  | SetTimeoutZero
  | SetTimeoutCheckIn nat
  | SendDomainServerCheckIn

record DomainServer =
  location :: string
  state :: ConnectionState
  refusalInfo :: string
  errorInfo :: string
  onStateChanged :: bool
  domainCheckInTimer :: "nat option"
  timers :: "nat list"
  starts :: nat
  nextTimer :: nat
  DEBUG :: bool
  trace :: "effect list"

definition new_DomainServer :: DomainServer where
  "new_DomainServer =
     \<lparr> location = '''', state = DISCONNECTED, refusalInfo = '''', errorInfo = '''',
       onStateChanged = False, domainCheckInTimer = None, timers = [], starts = 0,
       nextTimer = 1, DEBUG = False, trace = [] \<rparr>"

definition emit :: "effect \<Rightarrow> DomainServer \<Rightarrow> DomainServer" where
  "emit e ds = ds\<lparr>trace := trace ds @ [e]\<rparr>"

text \<open>
  \<open>String.prototype.trim\<close> removes white space and line terminators from both ends.
  A string is a list of 8-bit characters here, so the white space is the part of
  JavaScript's that fits: tab, line feed, vertical tab, form feed, carriage return,
  space and no-break space.
\<close>

definition isWhiteSpace :: "char \<Rightarrow> bool" where
  "isWhiteSpace c =
     (c \<in> set [CHR 0x09, CHR 0x0A, CHR 0x0B, CHR 0x0C, CHR 0x0D, CHR 0x20, CHR 0xA0])"

definition trim :: "string \<Rightarrow> string" where
  "trim s = rev (dropWhile isWhiteSpace (rev (dropWhile isWhiteSpace s)))"

text \<open>\<open>#setState(state, info = "")\<close>.\<close>

definition setState :: "ConnectionState \<Rightarrow> string \<Rightarrow> DomainServer \<Rightarrow> DomainServer" where
  "setState st info ds =
     (let hasStateChanged = (st \<noteq> state ds);
          ds1 = (if DEBUG ds \<and> \<not> hasStateChanged
                 then emit (ConsoleWarn ''DomainServer: State hasn't changed.'') ds else ds);
          ds2 = ds1\<lparr>state := st, refusalInfo := '''', errorInfo := ''''\<rparr>;
          ds3 = (if state ds2 = REFUSED then ds2\<lparr>refusalInfo := info\<rparr>
                 else if state ds2 = ERROR then ds2\<lparr>errorInfo := info\<rparr>
                 else ds2)
      in if hasStateChanged \<and> onStateChanged ds3 then emit (OnStateChanged st info) ds3 else ds3)"

text \<open>\<open>#stopDomainServerCheckins()\<close> and \<open>#sendDomainServerCheckIns()\<close>.\<close>

definition stopDomainServerCheckins :: "DomainServer \<Rightarrow> DomainServer" where
  "stopDomainServerCheckins ds =
     (case domainCheckInTimer ds of
        None \<Rightarrow> ds
      | Some t \<Rightarrow>
          (emit (ClearTimeout t) ds)\<lparr>timers := removeAll t (timers ds),
                                     domainCheckInTimer := None\<rparr>)"

definition sendDomainServerCheckIns :: "DomainServer \<Rightarrow> DomainServer" where
  "sendDomainServerCheckIns ds =
     emit SendDomainServerCheckIn
       ((emit (SetTimeoutCheckIn (nextTimer ds)) ds)
          \<lparr>domainCheckInTimer := Some (nextTimer ds), timers := timers ds @ [nextTimer ds],
           nextTimer := Suc (nextTimer ds)\<rparr>)"

text \<open>
  The slots that the constructor connects to the \<open>DomainHandler\<close>'s signals
  \<open>connectedToDomain\<close>, \<open>disconnectedFromDomain\<close> and \<open>domainConnectionRefused\<close>.
\<close>

definition connectedToDomain :: "DomainServer \<Rightarrow> DomainServer" where
  "connectedToDomain ds = setState CONNECTED '''' ds"

definition disconnectedFromDomain :: "DomainServer \<Rightarrow> DomainServer" where
  "disconnectedFromDomain ds =
     (if state ds \<noteq> DISCONNECTED then setState DISCONNECTED '''' (stopDomainServerCheckins ds)
      else ds)"

definition domainConnectionRefused :: "string \<Rightarrow> int \<Rightarrow> string \<Rightarrow> DomainServer \<Rightarrow> DomainServer" where
  "domainConnectionRefused reasonMessage reasonCodeInt extraInfo ds =
     setState REFUSED reasonMessage ds"

text \<open>The call \<open>this.#_nodeList.getDomainHandler().disconnect(reason, forceDisconnect)\<close>.\<close>

definition DomainHandler_disconnect :: "bool \<Rightarrow> string \<Rightarrow> bool \<Rightarrow> DomainServer \<Rightarrow> DomainServer" where
  "DomainHandler_disconnect emits reason forceDisconnect ds =
     (let ds1 = emit (DomainHandlerDisconnect reason forceDisconnect) ds
      in if emits then disconnectedFromDomain ds1 else ds1)"

text \<open>
  \<open>connect(location)\<close>. The function passed to \<open>setTimeout(..., 0)\<close> is
  \<open>startTimerFired\<close>; it runs later, when the event loop takes it, and nothing can
  cancel it, as its handle is dropped.
\<close>

definition connect :: "bool \<Rightarrow> argument \<Rightarrow> DomainServer \<Rightarrow> DomainServer" where
  "connect emits loc ds =
     (let oldLocation = location ds;
          ds1 = (case loc of
                   Str s \<Rightarrow> ds\<lparr>location := trim s\<rparr>
                 | NotAString \<Rightarrow>
                     (emit (ConsoleError
                        ''ERROR: DomainServer.connect() location parameter not a string!'') ds)
                       \<lparr>location := ''''\<rparr>)
      in if location ds1 = ''''
         then setState ERROR ''No location specified.''
                (DomainHandler_disconnect emits ''Invalid location'' False
                   (stopDomainServerCheckins ds1))
         else if location ds1 = oldLocation \<and> domainCheckInTimer ds1 \<noteq> None then ds1
         else
           (let ds2 = setState CONNECTING '''' ds1;
                ds3 = emit (HandleLookupString (case loc of Str s \<Rightarrow> s | NotAString \<Rightarrow> ''''))
                        ds2
            in if domainCheckInTimer ds3 = None
               then (emit SetTimeoutZero ds3)\<lparr>starts := Suc (starts ds3)\<rparr>
               else ds3))"

definition startTimerFired :: "DomainServer \<Rightarrow> DomainServer" where
  "startTimerFired ds = (if state ds = CONNECTING then sendDomainServerCheckIns ds else ds)"

text \<open>\<open>disconnect()\<close> and the setter of \<open>onStateChanged\<close>.\<close>

definition disconnect :: "bool \<Rightarrow> DomainServer \<Rightarrow> DomainServer" where
  "disconnect emits ds =
     (if state ds = DISCONNECTED then ds
      else setState DISCONNECTED ''''
             (DomainHandler_disconnect emits ''User disconnected'' True
                (stopDomainServerCheckins ds)))"

definition set_onStateChanged :: "callback \<Rightarrow> DomainServer \<Rightarrow> DomainServer" where
  "set_onStateChanged cb ds =
     (case cb of
        Function \<Rightarrow> ds\<lparr>onStateChanged := True\<rparr>
      | Null \<Rightarrow> ds\<lparr>onStateChanged := False\<rparr>
      | NotAFunction \<Rightarrow>
          (emit (ConsoleError
             ''ERROR: DomainServer.onStateChanged callback not a function or null!'') ds)
            \<lparr>onStateChanged := False\<rparr>)"

text \<open>
  Everything that can happen to a \<open>DomainServer\<close>: a call of its public interface, a
  signal of the \<open>DomainHandler\<close>, a pending start running, or a pending one-second
  timer firing, which runs \<open>#sendDomainServerCheckIns\<close> again. \<open>run\<close> is the state after
  a sequence of these, starting from the constructor's state.
\<close>

datatype action =
    Connect bool argument
  | Disconnect bool
  | SetOnStateChanged callback
  | ConnectedToDomain
  | DisconnectedFromDomain
  | DomainConnectionRefused string int string
  | StartTimerFired
  | CheckInTimerFired nat

fun step :: "DomainServer \<Rightarrow> action \<Rightarrow> DomainServer" where
  "step ds (Connect emits loc) = connect emits loc ds"
| "step ds (Disconnect emits) = disconnect emits ds"
| "step ds (SetOnStateChanged cb) = set_onStateChanged cb ds"
| "step ds ConnectedToDomain = connectedToDomain ds"
| "step ds DisconnectedFromDomain = disconnectedFromDomain ds"
| "step ds (DomainConnectionRefused m c x) = domainConnectionRefused m c x ds"
| "step ds StartTimerFired =
     (if starts ds = 0 then ds else startTimerFired (ds\<lparr>starts := starts ds - 1\<rparr>))"
| "step ds (CheckInTimerFired t) =
     (if t \<in> set (timers ds)
      then sendDomainServerCheckIns (ds\<lparr>timers := removeAll t (timers ds)\<rparr>)
      else ds)"

definition run :: "action list \<Rightarrow> DomainServer" where
  "run as = foldl step new_DomainServer as"

section \<open>What the theorems speak about\<close>

text \<open>
  The bytes that \<open>#writeHeader\<close> serializes, and a buffer with some of its bytes
  replaced from a position on.
\<close>

definition header_bytes :: "udt \<Rightarrow> MessageData \<Rightarrow> byte list" where
  "header_bytes U md =
     uint32_to_bytes (LITTLE_ENDIAN U) (word_of_int (seqNumBitField_of U md)) @
     (if isPartOfMessage md
      then uint32_to_bytes (LITTLE_ENDIAN U) (word_of_int (messageNumberAndBitField_of U md)) @
           uint32_to_bytes (LITTLE_ENDIAN U) (word_of_int (messagePartNumber md))
      else [])"

definition overwrite :: "byte list \<Rightarrow> nat \<Rightarrow> byte list \<Rightarrow> byte list" where
  "overwrite d n bs = take n d @ bs @ drop (n + length bs) d"

text \<open>
  The 32-bit word that a buffer holds at a position, its leading word, and the message
  data that the header of a received buffer decodes to.
\<close>

definition word_at :: "udt \<Rightarrow> byte list \<Rightarrow> nat \<Rightarrow> int" where
  "word_at U d k = uint (bytes_to_uint32 (LITTLE_ENDIAN U) (take 4 (drop k d)))"

definition leading_word :: "udt \<Rightarrow> byte list \<Rightarrow> int" where
  "leading_word U d = uint (bytes_to_uint32 (LITTLE_ENDIAN U) (take 4 d))"

definition decoded :: "udt \<Rightarrow> byte list \<Rightarrow> MessageData \<Rightarrow> MessageData" where
  "decoded U d md =
     (let x = leading_word U d;
          m = (0 < js_and x (MESSAGE_BIT_MASK U))
      in md\<lparr>isReliable := 0 < js_and x (RELIABILITY_BIT_MASK U),
             isPartOfMessage := m,
             obfuscationLevel :=
               js_sar (js_and x (OBFUSCATION_LEVEL_BIT_MASK U)) (OBFUSCATION_LEVEL_OFFSET U),
             sequenceNumber := js_and x (SEQUENCE_NUMBER_BIT_MASK U),
             dataPosition := totalHeaderSize m,
             messageNumber := (if m then js_and (word_at U d 4) (MESSAGE_NUMBER_MASK U) else 0),
             packetPosition :=
               (if m then js_sar (word_at U d 4) (PACKET_POSITION_OFFSET U) else ONLY),
             messagePartNumber := (if m then word_at U d 8 else 0)\<rparr>)"

text \<open>
  The header fields that a round trip compares; the bytes of a packet from a position
  on; and parsing back the bytes of a packet that was written, by handing its buffer
  to the receiving constructor.
\<close>

definition header_fields ::
  "error + world \<times> MessageData \<Rightarrow> error + bool \<times> bool \<times> int \<times> int \<times> int \<times> int" where
  "header_fields r =
     (case r of
        Inl e \<Rightarrow> Inl e
      | Inr (w, md) \<Rightarrow>
          Inr (isReliable md, isPartOfMessage md, sequenceNumber md, messageNumber md,
               packetPosition md, messagePartNumber md))"

definition bytes_from :: "nat \<Rightarrow> error + world \<times> MessageData \<Rightarrow> error + byte list" where
  "bytes_from n r =
     (case r of Inl e \<Rightarrow> Inl e | Inr (w, md) \<Rightarrow> Inr (drop n (mem w (buffer md))))"

definition reparse :: "udt \<Rightarrow> error + world \<times> MessageData \<Rightarrow> error + world \<times> MessageData" where
  "reparse U r =
     (case r of
        Inl e \<Rightarrow> Inl e
      | Inr (w, md) \<Rightarrow> fromReceivedPacket U (buffer md) (packetSize md) w)"

text \<open>
  The store and the packet that a constructor or a header rewrite returns, the empty
  store and a fresh \<open>MessageData\<close> when it threw; and the bytes of a buffer in the
  store that a write returns, none when it threw.
\<close>

definition world_of :: "error + world \<times> MessageData \<Rightarrow> world" where
  "world_of r = (case r of Inl e \<Rightarrow> empty_world | Inr (w, md) \<Rightarrow> w)"

definition packet_of :: "error + world \<times> MessageData \<Rightarrow> MessageData" where
  "packet_of r = (case r of Inl e \<Rightarrow> new_MessageData | Inr (w, md) \<Rightarrow> md)"

definition bytes_of :: "error + world \<Rightarrow> ref \<Rightarrow> byte list" where
  "bytes_of r b = (case r of Inl e \<Rightarrow> [] | Inr w \<Rightarrow> mem w b)"

text \<open>
  The effects by which a \<open>DomainServer\<close> starts or continues a connection attempt, and
  the invariant of its two detail strings.
\<close>

definition starts_connecting :: "effect \<Rightarrow> bool" where
  "starts_connecting e =
     (case e of
        HandleLookupString s \<Rightarrow> True
      | SetTimeoutZero \<Rightarrow> True
      | SetTimeoutCheckIn t \<Rightarrow> True
      | SendDomainServerCheckIn \<Rightarrow> True
      | _ \<Rightarrow> False)"

definition info_invariant :: "DomainServer \<Rightarrow> bool" where
  "info_invariant ds =
     ((state ds \<noteq> REFUSED \<longrightarrow> refusalInfo ds = '''') \<and>
      (state ds \<noteq> ERROR \<longrightarrow> errorInfo ds = ''''))"

text \<open>
  The header fields that \<open>#readHeader\<close> gives back for the header that \<open>#writeHeader\<close>
  serializes from a packet's message data under the layout \<open>UDT\<close>: the fields written,
  except that a position of 2 or 3 comes back as \<open>-2\<close> or \<open>-1\<close>; for a packet that is
  not part of a message, the message fields are those of a fresh \<open>MessageData\<close>.
\<close>

definition read_back :: "MessageData \<Rightarrow> bool \<times> bool \<times> int \<times> int \<times> int \<times> int" where
  "read_back md =
     (isReliable md, isPartOfMessage md, sequenceNumber md,
      if isPartOfMessage md then messageNumber md else 0,
      if isPartOfMessage md
      then (if packetPosition md < 2 then packetPosition md else packetPosition md - 4)
      else ONLY,
      if isPartOfMessage md then messagePartNumber md else 0)"

section \<open>Concrete packets, buffers and runs\<close>

text \<open>
  \<open>new Packet(0, false, true)\<close> followed by
  \<open>writeMessageNumber(9, Packet.PacketPosition.FIRST, 0)\<close>.
\<close>

definition first_of_message :: "error + world \<times> MessageData" where
  "first_of_message =
     (case Packet_new UDT 0 False True empty_world of
        Inl e \<Rightarrow> Inl e
      | Inr (w, md) \<Rightarrow> writeMessageNumber UDT 9 FIRST 0 w md)"

text \<open>\<open>new Packet(8, false, true)\<close>.\<close>

definition message_packet :: "error + world \<times> MessageData" where
  "message_packet = Packet_new UDT 8 False True empty_world"

text \<open>
  The copy of that packet made by \<open>Packet.createCopy\<close>; the store after the first
  payload byte, the one at the copy's cursor, has been set to \<open>0xFF\<close> through the copy;
  and the store after the last payload byte has been set to \<open>0xAA\<close> through the
  original instead.
\<close>

definition copied :: MessageData where
  "copied = createCopy (packet_of message_packet)"

definition copy_overwritten :: "error + world" where
  "copy_overwritten = setUint8 (world_of message_packet) (buffer copied) (dataPosition copied) 255"

definition original_overwritten :: "error + world" where
  "original_overwritten =
     setUint8 (world_of message_packet) (buffer (packet_of message_packet)) 19 170"

text \<open>
  \<open>new Packet(8, false, false)\<close> whose 8 payload bytes have then been written with
  \<open>0xFF\<close>, the cursor left at the end; and the same packet after
  \<open>writeMessageNumber(1, Packet.PacketPosition.ONLY, 0)\<close>.
\<close>

definition filled_packet :: "error + world \<times> MessageData" where
  "filled_packet =
     (case Packet_new UDT 8 False False empty_world of
        Inl e \<Rightarrow> Inl e
      | Inr (w, md) \<Rightarrow>
          (case setUint32 w (buffer md) 4 0xFFFFFFFF True of
             Inl e \<Rightarrow> Inl e
           | Inr w1 \<Rightarrow>
               (case setUint32 w1 (buffer md) 8 0xFFFFFFFF True of
                  Inl e \<Rightarrow> Inl e
                | Inr w2 \<Rightarrow> Inr (w2, md\<lparr>dataPosition := 12\<rparr>))))"

definition filled_packet_renumbered :: "error + world \<times> MessageData" where
  "filled_packet_renumbered =
     (case filled_packet of
        Inl e \<Rightarrow> Inl e
      | Inr (w, md) \<Rightarrow> writeMessageNumber UDT 1 ONLY 0 w md)"

text \<open>
  \<open>new Packet(0, false, false)\<close>, and the same packet after
  \<open>writeMessageNumber(1, Packet.PacketPosition.ONLY, 0)\<close>.
\<close>

definition empty_packet :: "error + world \<times> MessageData" where
  "empty_packet = Packet_new UDT 0 False False empty_world"

definition empty_packet_renumbered :: "error + world \<times> MessageData" where
  "empty_packet_renumbered =
     (case empty_packet of
        Inl e \<Rightarrow> Inl e
      | Inr (w, md) \<Rightarrow> writeMessageNumber UDT 1 ONLY 0 w md)"

text \<open>
  Received buffers, each the only buffer of its store: the first 14 bytes of the
  message packet of \<open>Packet.unit.test.js\<close>; a 4-byte datagram whose header word
  \<open>0x60000000\<close> has the control bit clear and the reliability and message bits set; a
  6-byte packet with sequence number 1 and obfuscation level 1; a 4-byte datagram
  whose header word \<open>0x28000000\<close> has the message bit set and obfuscation level 1; and
  a 4-byte datagram whose header word \<open>0x98000000\<close> has the control bit set and
  obfuscation level 3.
\<close>

definition received :: "byte list \<Rightarrow> world" where
  "received bs = empty_world\<lparr>mem := (mem empty_world)(0 := bs), allocated := 1\<rparr>"

definition received_message :: world where
  "received_message =
     received [0xda, 0x28, 0x0a, 0x66, 0x09, 0x00, 0x00, 0x40, 0x02, 0x00, 0x00, 0x00, 0x39, 0x12]"

definition truncated_message :: world where
  "truncated_message = received [0x00, 0x00, 0x00, 0x60]"

definition obfuscated_packet :: world where
  "obfuscated_packet = received [0x01, 0x00, 0x00, 0x08, 0x5a, 0xa5]"

definition obfuscated_truncated :: world where
  "obfuscated_truncated = received [0x00, 0x00, 0x00, 0x28]"

definition obfuscated_control :: world where
  "obfuscated_control = received [0x00, 0x00, 0x00, 0x98]"

text \<open>
  A registry with an audio mixer, session identity 100 and all twelve permission bits
  set, as in \<open>NodeList.unit.test.js\<close>.
\<close>

definition audio_mixer :: Node where
  "audio_mixer =
     \<lparr> nodeType = AudioMixer, nodeUUID = 1234, publicSocket = (2130706433, 101),
       localSocket = (2130706434, 102), localID = 11, isReplicated = True, isUpstream = True,
       connectionSecret = 5678, nodePermissions = 0 \<rparr>"

definition admin_registry :: NodeList where
  "admin_registry =
     addOrUpdateNode audio_mixer
       \<lparr> nodes = [], nodeInterestSet = {}, sessionUUID = 100, sessionLocalID = 0,
         permissions = 4095 \<rparr>"

text \<open>A connection that is refused, then asked to connect to nothing, then connects.\<close>

definition refused_then_connected :: "action list" where
  "refused_then_connected =
     [Connect False (Str ''ws://127.0.0.1:40102''), StartTimerFired,
      DomainConnectionRefused ''Too many connected users'' 3 '''',
      Connect True NotAString,
      Connect False (Str ''ws://127.0.0.1:40102''), StartTimerFired, ConnectedToDomain]"

text \<open>
  \<open>connect\<close> called twice with the same location before the event loop runs, then both
  deferred starts running; that \<open>DomainServer\<close> asked to connect to the empty string;
  and the one-second timer that is then still pending firing.
\<close>

definition twice_started :: DomainServer where
  "twice_started =
     run [Connect False (Str ''ws://127.0.0.1:40102''),
          Connect False (Str ''ws://127.0.0.1:40102''), StartTimerFired, StartTimerFired]"

definition twice_started_no_location :: DomainServer where
  "twice_started_no_location = connect False (Str '''') twice_started"

definition twice_started_timer_fired :: DomainServer where
  "twice_started_timer_fired = step twice_started_no_location (CheckInTimerFired 1)"

section \<open>Writing a header\<close>

lemma length_uint32_to_bytes [simp]: "length (uint32_to_bytes le v) = 4"
  by (simp add: uint32_to_bytes_def Let_def)

lemma length_header_bytes:
  "int (length (header_bytes U md)) = totalHeaderSize (isPartOfMessage md)"
  by (simp add: header_bytes_def totalHeaderSize_def)

lemma nat_totalHeaderSize:
  "nat (totalHeaderSize (isPartOfMessage md)) = length (header_bytes U md)"
  using length_header_bytes [of U md] by simp

lemma seqNumBitField_of_dataPosition [simp]:
  "seqNumBitField_of U (md\<lparr>dataPosition := x\<rparr>) = seqNumBitField_of U md"
  by (simp add: seqNumBitField_of_def Let_def)

lemma messageNumberAndBitField_of_dataPosition [simp]:
  "messageNumberAndBitField_of U (md\<lparr>dataPosition := x\<rparr>) = messageNumberAndBitField_of U md"
  by (simp add: messageNumberAndBitField_of_def)

lemma js_and_zero [simp]: "js_and 0 b = 0"
  by (simp add: js_and_def ToInt32_def)

lemma length_overwrite: "n + length bs \<le> length d \<Longrightarrow> length (overwrite d n bs) = length d"
  by (simp add: overwrite_def)

lemma overwrite_overwrite:
  assumes "n + length b1 + length b2 \<le> length d"
  shows "overwrite (overwrite d n b1) (n + length b1) b2 = overwrite d n (b1 @ b2)"
  using assms by (simp add: overwrite_def ac_simps)

lemma drop_overwrite:
  "n + length bs \<le> length d \<Longrightarrow>
   drop (n + length bs) (overwrite d n bs) = drop (n + length bs) d"
  by (simp add: overwrite_def)

lemma overwrite_at_start:
  assumes "length bs \<le> length d"
  shows "drop (length bs) (overwrite d 0 bs) = drop (length bs) d"
    and "length (overwrite d 0 bs) = length d"
  using assms drop_overwrite [of 0 bs d] length_overwrite [of 0 bs d] by simp_all

lemma setUint32_in_view:
  assumes "k + 4 \<le> length (mem w r)"
  shows "setUint32 w r (int k) v le =
         Inr (w\<lparr>mem := (mem w)(r := overwrite (mem w r) k (uint32_to_bytes le (word_of_int v)))\<rparr>)"
  using assms by (simp add: setUint32_def DataView_setUint32_def overwrite_def in_view_def)

lemma setUint32_frame:
  "setUint32 w r p v le = Inr w' \<Longrightarrow> r' \<noteq> r \<Longrightarrow> mem w' r' = mem w r'"
  by (auto simp: setUint32_def split: sum.splits)

lemma setUint8_frame:
  "setUint8 w r p v = Inr w' \<Longrightarrow> r' \<noteq> r \<Longrightarrow> mem w' r' = mem w r'"
  by (auto simp: setUint8_def split: sum.splits)

lemma writeMessageWords_in_view:
  assumes "dataPosition md = int k" and "k + 8 \<le> length (mem w (buffer md))"
  shows "writeMessageWords U w md =
         Inr (w\<lparr>mem := (mem w)(buffer md :=
                  overwrite (mem w (buffer md)) k
                  (uint32_to_bytes (LITTLE_ENDIAN U) (word_of_int (messageNumberAndBitField_of U md)) @
                   uint32_to_bytes (LITTLE_ENDIAN U) (word_of_int (messagePartNumber md))))\<rparr>,
              md\<lparr>dataPosition := int k + 8\<rparr>)"
proof -
  let ?d = "mem w (buffer md)"
  let ?b1 = "uint32_to_bytes (LITTLE_ENDIAN U) (word_of_int (messageNumberAndBitField_of U md))"
  let ?b2 = "uint32_to_bytes (LITTLE_ENDIAN U) (word_of_int (messagePartNumber md))"
  let ?w1 = "w\<lparr>mem := (mem w)(buffer md := overwrite ?d k ?b1)\<rparr>"
  have s1: "setUint32 w (buffer md) (int k) (messageNumberAndBitField_of U md) (LITTLE_ENDIAN U)
            = Inr ?w1"
    using assms by (simp add: setUint32_in_view)
  have l1: "(k + 4) + 4 \<le> length (mem ?w1 (buffer md))"
    using assms by (simp add: length_overwrite)
  have s2: "setUint32 ?w1 (buffer md) (int (k + 4)) (messagePartNumber md) (LITTLE_ENDIAN U)
            = Inr (?w1\<lparr>mem := (mem ?w1)(buffer md := overwrite (mem ?w1 (buffer md)) (k + 4) ?b2)\<rparr>)"
    by (rule setUint32_in_view [OF l1])
  have sp: "overwrite (overwrite ?d k ?b1) (k + 4) ?b2 = overwrite ?d k (?b1 @ ?b2)"
    using overwrite_overwrite [of k ?b1 ?b2 ?d] assms by simp
  have p4: "int k + 4 = int (k + 4)" by simp
  show ?thesis
    unfolding writeMessageWords_def assms(1) s1
    by (simp add: Let_def p4 s2 sp del: of_nat_add)
qed

lemma writeHeader_in_view:
  assumes seq: "js_and (sequenceNumber md) (BIT_FIELD_MASK U) = 0"
      and pos: "(if isOverwriting then 0 else dataPosition md) = int k"
      and len: "int k + totalHeaderSize (isPartOfMessage md) \<le> int (length (mem w (buffer md)))"
  shows "writeHeader U isOverwriting w md =
         Inr (w\<lparr>mem := (mem w)(buffer md := overwrite (mem w (buffer md)) k (header_bytes U md))\<rparr>,
              md\<lparr>dataPosition := (if isOverwriting then dataPosition md
                                      else dataPosition md + totalHeaderSize (isPartOfMessage md))\<rparr>)"
proof -
  let ?d = "mem w (buffer md)"
  let ?md0 = "if isOverwriting then md\<lparr>dataPosition := 0\<rparr> else md"
  let ?b0 = "uint32_to_bytes (LITTLE_ENDIAN U) (word_of_int (seqNumBitField_of U md))"
  let ?w1 = "w\<lparr>mem := (mem w)(buffer md := overwrite ?d k ?b0)\<rparr>"
  have p0: "dataPosition ?md0 = int k" using pos by (simp split: if_splits)
  have k4: "k + 4 \<le> length ?d" using len by (simp add: totalHeaderSize_def split: if_splits)
  have s0: "setUint32 w (buffer ?md0) (dataPosition ?md0) (seqNumBitField_of U ?md0) (LITTLE_ENDIAN U)
            = Inr ?w1"
    unfolding p0 using setUint32_in_view [OF k4, of "seqNumBitField_of U md" "LITTLE_ENDIAN U"]
    by (simp split: if_splits)
  show ?thesis
  proof (cases "isPartOfMessage md")
    case False
    then show ?thesis
      unfolding writeHeader_def using seq s0 pos
      by (simp add: Let_def header_bytes_def totalHeaderSize_def split: if_splits)
  next
    case True
    let ?md1 = "?md0\<lparr>dataPosition := dataPosition ?md0 + 4\<rparr>"
    have p1: "dataPosition ?md1 = int (k + 4)" using p0 by (simp split: if_splits)
    have l1: "(k + 4) + 8 \<le> length (mem ?w1 (buffer ?md1))"
      using len True by (simp add: totalHeaderSize_def length_overwrite k4 split: if_splits)
    have mw: "writeMessageWords U ?w1 ?md1 =
              Inr (?w1\<lparr>mem := (mem ?w1)(buffer ?md1 :=
                      overwrite (mem ?w1 (buffer ?md1)) (k + 4)
                        (uint32_to_bytes (LITTLE_ENDIAN U)
                           (word_of_int (messageNumberAndBitField_of U ?md1)) @
                         uint32_to_bytes (LITTLE_ENDIAN U) (word_of_int (messagePartNumber ?md1))))\<rparr>,
                   ?md1\<lparr>dataPosition := int (k + 4) + 8\<rparr>)"
      by (rule writeMessageWords_in_view [OF p1 l1])
    have sp: "overwrite (overwrite ?d k ?b0) (k + 4) bs = overwrite ?d k (?b0 @ bs)"
      if "length bs = 8" for bs
      using overwrite_overwrite [of k ?b0 bs ?d] len True that by (simp add: totalHeaderSize_def)
    show ?thesis
      unfolding writeHeader_def using seq True pos
      by (simp add: Let_def s0 mw sp header_bytes_def totalHeaderSize_def split: if_splits)
  qed
qed

lemma writeMessageWords_frame:
  assumes "writeMessageWords U w md = Inr (w', md')" and "r' \<noteq> buffer md"
  shows "mem w' r' = mem w r'"
  using assms
  by (auto simp: writeMessageWords_def Let_def split: sum.splits
      dest!: setUint32_frame [where r' = r'])

lemma writeHeader_frame:
  assumes "writeHeader U ov w md = Inr (w', md')" and "r' \<noteq> buffer md"
  shows "mem w' r' = mem w r'"
proof -
  let ?md0 = "if ov then md\<lparr>dataPosition := 0\<rparr> else md"
  let ?md1 = "?md0\<lparr>dataPosition := dataPosition ?md0 + 4\<rparr>"
  from assms(1) obtain w1 where
    s: "setUint32 w (buffer ?md0) (dataPosition ?md0) (seqNumBitField_of U ?md0) (LITTLE_ENDIAN U)
        = Inr w1"
    by (auto simp: writeHeader_def Let_def split: sum.splits if_splits)
  have m1: "mem w1 r' = mem w r'" using setUint32_frame [OF s] assms(2) by simp
  from assms(1) s have "\<exists>mdx. (if isPartOfMessage ?md0 then writeMessageWords U w1 ?md1
                               else Inr (w1, ?md1)) = Inr (w', mdx)"
    by (auto simp: writeHeader_def Let_def split: sum.splits if_splits)
  then obtain mdx where
    "(if isPartOfMessage ?md0 then writeMessageWords U w1 ?md1 else Inr (w1, ?md1)) = Inr (w', mdx)" ..
  then have "mem w' r' = mem w1 r'"
    using assms(2) by (auto split: if_splits dest!: writeMessageWords_frame [where r' = r'])
  with m1 show ?thesis by simp
qed

section \<open>Reading a header\<close>

lemma getUint32_in_view:
  assumes "k + 4 \<le> length (mem w r)"
  shows "getUint32 w r (int k) le = Inr (uint (bytes_to_uint32 le (take 4 (drop k (mem w r)))))"
  using assms by (simp add: getUint32_def DataView_getUint32_def in_view_def)

lemma getUint32_not_in_view:
  assumes "\<not> k + 4 \<le> length (mem w r)"
  shows "getUint32 w r (int k) le = Inl RangeError"
  using assms by (simp add: getUint32_def DataView_getUint32_def in_view_def)

lemma readMessageWords_eq:
  assumes "dataPosition md = int k"
  shows "readMessageWords U w md =
         (if k + 8 \<le> length (mem w (buffer md))
          then Inr (md\<lparr>dataPosition := int k + 8,
                       messageNumber := js_and (word_at U (mem w (buffer md)) k) (MESSAGE_NUMBER_MASK U),
                       packetPosition := js_sar (word_at U (mem w (buffer md)) k) (PACKET_POSITION_OFFSET U),
                       messagePartNumber := word_at U (mem w (buffer md)) (k + 4)\<rparr>)
          else Inl RangeError)"
proof (cases "k + 4 \<le> length (mem w (buffer md))")
  case False
  then show ?thesis
    unfolding readMessageWords_def assms by (simp add: getUint32_not_in_view)
next
  case k4: True
  have p4: "int k + 4 = int (k + 4)" by simp
  show ?thesis
  proof (cases "k + 8 \<le> length (mem w (buffer md))")
    case True
    then have "(k + 4) + 4 \<le> length (mem w (buffer md))" by simp
    from getUint32_in_view [OF this] getUint32_in_view [OF k4] True show ?thesis
      unfolding readMessageWords_def assms
      by (simp add: Let_def p4 word_at_def del: of_nat_add)
  next
    case False
    then have "\<not> (k + 4) + 4 \<le> length (mem w (buffer md))" by simp
    from getUint32_not_in_view [OF this] getUint32_in_view [OF k4] False show ?thesis
      unfolding readMessageWords_def assms
      by (simp add: Let_def p4 del: of_nat_add)
  qed
qed

lemma readHeader_received:
  assumes "4 \<le> length (mem w r)"
  shows "readHeader U w (BasePacket_received r sz) =
         (if js_and (leading_word U (mem w r)) (CONTROL_BIT_MASK U) \<noteq> 0 then Inl AssertionFailed
          else if int (length (mem w r))
                  < totalHeaderSize (0 < js_and (leading_word U (mem w r)) (MESSAGE_BIT_MASK U))
          then Inl RangeError
          else Inr (decoded U (mem w r) (BasePacket_received r sz)))"
proof -
  have g: "getUint32 w r 0 (LITTLE_ENDIAN U) = Inr (leading_word U (mem w r))"
    using getUint32_in_view [of 0 w r] assms by (simp add: leading_word_def)
  have b [simp]: "buffer (BasePacket_received r sz) = r"
    "dataPosition (BasePacket_received r sz) = 0"
    by (simp_all add: BasePacket_received_def new_MessageData_def)
  show ?thesis
    unfolding readHeader_def using assms
    by (simp add: g Let_def readMessageWords_eq [where k = 4] decoded_def totalHeaderSize_def)
qed

lemma fromReceivedPacket_eq:
  assumes "4 \<le> length (mem w r)"
  shows "fromReceivedPacket U r sz w =
         (if js_and (leading_word U (mem w r)) (CONTROL_BIT_MASK U) \<noteq> 0 then Inl AssertionFailed
          else if int (length (mem w r))
                  < totalHeaderSize (0 < js_and (leading_word U (mem w r)) (MESSAGE_BIT_MASK U))
          then Inl RangeError
          else Inr (if obfuscationLevel (decoded U (mem w r) (BasePacket_received r sz))
                       \<noteq> NoObfuscation
                    then w\<lparr>console := console w @ [undo_obfuscation_warning]\<rparr> else w,
                    decoded U (mem w r) (BasePacket_received r sz)))"
  unfolding fromReceivedPacket_def readHeader_received [OF assms] by simp

section \<open>Header round trip\<close>

text \<open>
  A 32-bit word comes back from the four bytes it was stored as, and the operands of
  the bitwise operators are taken modulo \<open>2^32\<close>.
\<close>

lemma bytes_uint32_roundtrip: "bytes_to_uint32 le (uint32_to_bytes le v) = v"
proof -
  have "bytes_to_uint32_le [ucast v, ucast (drop_bit 8 v), ucast (drop_bit 16 v), ucast (drop_bit 24 v)] = v"
  proof (rule bit_word_eqI)
    fix n assume n: "n < LENGTH(32)"
    then consider "n < 8" | "8 \<le> n \<and> n < 16" | "16 \<le> n \<and> n < 24" | "24 \<le> n \<and> n < 32"
      by fastforce
    then show "bit (bytes_to_uint32_le [ucast v, ucast (drop_bit 8 v), ucast (drop_bit 16 v),
                  ucast (drop_bit 24 v)]) n \<longleftrightarrow> bit v n"
      by cases (auto simp: bit_simps)
  qed
  then show ?thesis
    by (cases le) (simp_all add: bytes_to_uint32_def uint32_to_bytes_def Let_def)
qed

lemma word_of_js_or: "(word_of_int (js_or a b) :: 32 word) = word_of_int a OR word_of_int b"
  by (simp add: js_or_def ToInt32_def)

lemma word_of_js_shl:
  "(word_of_int (js_shl a n) :: 32 word) = push_bit (nat (n mod 32)) (word_of_int a)"
  by (simp add: js_shl_def ToInt32_def)

lemma js_and_uint: "js_and (uint (w :: 32 word)) c = sint (w AND word_of_int c)"
  by (simp add: js_and_def ToInt32_def)

text \<open>Numbers below \<open>2^27\<close> have no bit in the flag bits of a header word.\<close>

lemma low27:
  assumes "0 \<le> x" "x < 2 ^ 27"
  shows "(word_of_int x :: 32 word) AND 0x07FFFFFF = word_of_int x"
proof -
  have m: "(0x07FFFFFF :: 32 word) = mask 27" by (simp add: mask_eq_exp_minus_1)
  have "take_bit 27 x = x" using assms by (simp add: take_bit_int_eq_self)
  then show ?thesis unfolding m by (simp add: and_mask_wi)
qed

lemma low27_and:
  assumes "0 \<le> x" "x < 2 ^ 27" and c: "(0x07FFFFFF :: 32 word) AND c = 0"
  shows "(word_of_int x :: 32 word) AND c = 0"
proof -
  have "(word_of_int x :: 32 word) AND c = ((word_of_int x :: 32 word) AND 0x07FFFFFF) AND c"
    using low27 [OF assms(1,2)] by simp
  also have "\<dots> = (word_of_int x :: 32 word) AND (0x07FFFFFF AND c)"
    by (simp only: and.assoc)
  finally show ?thesis by (simp add: c)
qed

lemma sint_low27:
  assumes "0 \<le> x" "x < 2 ^ 27"
  shows "sint (word_of_int x :: 32 word) = x"
  using assms by (simp add: sint_sbintrunc' signed_take_bit_int_eq_self)

lemma uint_u32:
  assumes "0 \<le> x" "x < 2 ^ 32"
  shows "uint (word_of_int x :: 32 word) = x"
  using assms by (simp add: uint_word_of_int take_bit_int_eq_self)

lemma signed_drop_bit_or:
  "signed_drop_bit n (a OR b) = signed_drop_bit n a OR signed_drop_bit n (b :: 32 word)"
  by (rule bit_word_eqI) (auto simp: bit_signed_drop_bit_iff bit_or_iff)

lemma signed_drop_bit_low27:
  assumes "0 \<le> x" "x < 2 ^ 27"
  shows "signed_drop_bit 30 (word_of_int x :: 32 word) = 0"
proof -
  have t: "take_bit 27 x = x" using assms by (simp add: take_bit_int_eq_self)
  have b: "\<not> bit x k" if "27 \<le> k" for k
  proof
    assume "bit x k"
    then have "bit (take_bit 27 x) k" using t by simp
    then show False using that by (simp add: bit_take_bit_iff)
  qed
  show ?thesis
    by (rule bit_word_eqI) (auto simp: bit_signed_drop_bit_iff bit_word_of_int_iff b)
qed

text \<open>
  What \<open>#readHeader\<close> extracts from the first header word that \<open>#writeHeader\<close> composes
  for a packet without obfuscation: the control bit is clear, and the two flags and the
  sequence number are those written.
\<close>

lemma first_word_decode:
  assumes "0 \<le> sequenceNumber md" "sequenceNumber md < 2 ^ 27"
      and "obfuscationLevel md = NoObfuscation"
  shows "js_and (uint (word_of_int (seqNumBitField_of UDT md) :: 32 word)) (CONTROL_BIT_MASK UDT) = 0"
    and "(0 < js_and (uint (word_of_int (seqNumBitField_of UDT md) :: 32 word)) (RELIABILITY_BIT_MASK UDT))
           = isReliable md"
    and "(0 < js_and (uint (word_of_int (seqNumBitField_of UDT md) :: 32 word)) (MESSAGE_BIT_MASK UDT))
           = isPartOfMessage md"
    and "js_sar (js_and (uint (word_of_int (seqNumBitField_of UDT md) :: 32 word))
                  (OBFUSCATION_LEVEL_BIT_MASK UDT)) (OBFUSCATION_LEVEL_OFFSET UDT) = 0"
    and "js_and (uint (word_of_int (seqNumBitField_of UDT md) :: 32 word)) (SEQUENCE_NUMBER_BIT_MASK UDT)
           = sequenceNumber md"
proof -
  let ?S = "word_of_int (sequenceNumber md) :: 32 word"
  let ?R = "(if isReliable md then 0x40000000 else 0) :: 32 word"
  let ?M = "(if isPartOfMessage md then 0x20000000 else 0) :: 32 word"
  have W: "(word_of_int (seqNumBitField_of UDT md) :: 32 word) = ?S OR ?R OR ?M"
    using assms(3)
    by (simp add: seqNumBitField_of_def Let_def UDT_def word_of_js_or or.assoc)
  have z: "?S AND c = 0" if "(0x07FFFFFF :: 32 word) AND c = 0" for c
    using low27_and [OF assms(1,2) that] .
  have l: "?S AND 0x07FFFFFF = ?S" using low27 [OF assms(1,2)] .
  show "js_and (uint (word_of_int (seqNumBitField_of UDT md) :: 32 word)) (CONTROL_BIT_MASK UDT) = 0"
    unfolding js_and_uint W
    by (simp add: UDT_def bit.conj_disj_distrib2 z)
  show "(0 < js_and (uint (word_of_int (seqNumBitField_of UDT md) :: 32 word)) (RELIABILITY_BIT_MASK UDT))
           = isReliable md"
    unfolding js_and_uint W
    by (simp add: UDT_def bit.conj_disj_distrib2 z)
  show "(0 < js_and (uint (word_of_int (seqNumBitField_of UDT md) :: 32 word)) (MESSAGE_BIT_MASK UDT))
           = isPartOfMessage md"
    unfolding js_and_uint W
    by (simp add: UDT_def bit.conj_disj_distrib2 z)
  show "js_sar (js_and (uint (word_of_int (seqNumBitField_of UDT md) :: 32 word))
                  (OBFUSCATION_LEVEL_BIT_MASK UDT)) (OBFUSCATION_LEVEL_OFFSET UDT) = 0"
    unfolding js_and_uint W
    by (simp add: UDT_def bit.conj_disj_distrib2 z js_sar_def ToInt32_def)
  show "js_and (uint (word_of_int (seqNumBitField_of UDT md) :: 32 word)) (SEQUENCE_NUMBER_BIT_MASK UDT)
           = sequenceNumber md"
    unfolding js_and_uint W
    by (simp add: UDT_def bit.conj_disj_distrib2 l sint_low27 [OF assms(1,2)])
qed

text \<open>
  What \<open>#readHeader\<close> extracts from the second header word: the message number written,
  and the position written only when it is below 2. The arithmetic shift fills with the
  top bit of the word, which is the top bit of the position.
\<close>

lemma second_word_decode:
  assumes "0 \<le> messageNumber md" "messageNumber md < 2 ^ 27"
      and "0 \<le> packetPosition md" "packetPosition md < 4"
  shows "js_and (uint (word_of_int (messageNumberAndBitField_of UDT md) :: 32 word))
           (MESSAGE_NUMBER_MASK UDT) = messageNumber md"
    and "js_sar (uint (word_of_int (messageNumberAndBitField_of UDT md) :: 32 word))
           (PACKET_POSITION_OFFSET UDT)
         = (if packetPosition md < 2 then packetPosition md else packetPosition md - 4)"
proof -
  let ?M = "word_of_int (messageNumber md) :: 32 word"
  let ?P = "push_bit 30 (word_of_int (packetPosition md)) :: 32 word"
  have W: "(word_of_int (messageNumberAndBitField_of UDT md) :: 32 word) = ?M OR ?P"
    by (simp add: messageNumberAndBitField_of_def UDT_def word_of_js_or word_of_js_shl)
  from assms(3,4) consider "packetPosition md = 0" | "packetPosition md = 1"
    | "packetPosition md = 2" | "packetPosition md = 3" by fastforce
  note cases = this
  have l: "?M AND 0x07FFFFFF = ?M" using low27 [OF assms(1,2)] .
  show "js_and (uint (word_of_int (messageNumberAndBitField_of UDT md) :: 32 word))
           (MESSAGE_NUMBER_MASK UDT) = messageNumber md"
    unfolding js_and_uint W
    by (cases rule: cases)
       (simp_all add: UDT_def bit.conj_disj_distrib2 l sint_low27 [OF assms(1,2)])
  have z: "signed_drop_bit 30 ?M = 0" using signed_drop_bit_low27 [OF assms(1,2)] .
  have p: "sint (signed_drop_bit 30 (0x40000000 :: 32 word)) = 1"
          "sint (signed_drop_bit 30 (0x80000000 :: 32 word)) = - 2"
          "sint (signed_drop_bit 30 (0xC0000000 :: 32 word)) = - 1"
    by code_simp+
  show "js_sar (uint (word_of_int (messageNumberAndBitField_of UDT md) :: 32 word))
           (PACKET_POSITION_OFFSET UDT)
         = (if packetPosition md < 2 then packetPosition md else packetPosition md - 4)"
    unfolding W
    by (cases rule: cases)
       (simp_all add: UDT_def js_sar_def ToInt32_def signed_drop_bit_or z p)
qed

lemma leading_word_header_bytes:
  "leading_word UDT (header_bytes UDT md @ rest)
   = uint (word_of_int (seqNumBitField_of UDT md) :: 32 word)"
  by (simp add: leading_word_def header_bytes_def bytes_uint32_roundtrip)

lemma word_at_header_bytes:
  assumes "isPartOfMessage md"
  shows "word_at UDT (header_bytes UDT md @ rest) 4
         = uint (word_of_int (messageNumberAndBitField_of UDT md) :: 32 word)"
    and "word_at UDT (header_bytes UDT md @ rest) 8
         = uint (word_of_int (messagePartNumber md) :: 32 word)"
  using assms by (simp_all add: word_at_def header_bytes_def bytes_uint32_roundtrip)

lemma decoded_header_bytes:
  assumes s: "0 \<le> sequenceNumber md" "sequenceNumber md < 2 ^ 27"
      and o: "obfuscationLevel md = NoObfuscation"
      and m: "0 \<le> messageNumber md" "messageNumber md < 2 ^ 27"
      and p: "0 \<le> packetPosition md" "packetPosition md < 4"
      and n: "0 \<le> messagePartNumber md" "messagePartNumber md < 2 ^ 32"
  shows "header_fields (Inr (w, decoded UDT (header_bytes UDT md @ rest) md0))
         = Inr (read_back md)"
    and "obfuscationLevel (decoded UDT (header_bytes UDT md @ rest) md0) = NoObfuscation"
proof -
  show "header_fields (Inr (w, decoded UDT (header_bytes UDT md @ rest) md0))
         = Inr (read_back md)"
  proof (cases "isPartOfMessage md")
    case True
    then show ?thesis
      by (simp add: header_fields_def decoded_def Let_def read_back_def
          leading_word_header_bytes word_at_header_bytes [OF True]
          first_word_decode [OF s o] second_word_decode [OF m p] uint_u32 [OF n])
  next
    case False
    then show ?thesis
      by (simp add: header_fields_def decoded_def Let_def read_back_def
          leading_word_header_bytes first_word_decode [OF s o])
  qed
  show "obfuscationLevel (decoded UDT (header_bytes UDT md @ rest) md0) = NoObfuscation"
    by (simp add: decoded_def Let_def leading_word_header_bytes first_word_decode [OF s o]
        NoObfuscation_def)
qed

text \<open>
  Under the layout \<open>UDT\<close>, for every packet without obfuscation whose buffer holds its
  header, with a sequence number and a message number below \<open>2^27\<close>, a position from 0
  to 3 and a part number below \<open>2^32\<close>: the header that \<open>#writeHeader\<close> writes is read
  back by the receiving constructor with the reliability flag, the part-of-message
  flag, the sequence number, the message number and the part number that were written.
  The position is read back as written when it is \<open>ONLY\<close> (0) or \<open>LAST\<close> (1), and 4 too
  low when it is \<open>FIRST\<close> (2) or \<open>MIDDLE\<close> (3).
\<close>

lemma header_round_trip:
  assumes s: "0 \<le> sequenceNumber md" "sequenceNumber md < 2 ^ 27"
      and o: "obfuscationLevel md = NoObfuscation"
      and m: "0 \<le> messageNumber md" "messageNumber md < 2 ^ 27"
      and p: "0 \<le> packetPosition md" "packetPosition md < 4"
      and n: "0 \<le> messagePartNumber md" "messagePartNumber md < 2 ^ 32"
      and len: "totalHeaderSize (isPartOfMessage md) \<le> int (length (mem w (buffer md)))"
  shows "header_fields (reparse UDT (writeHeader UDT True w md)) = Inr (read_back md)"
proof -
  let ?d = "mem w (buffer md)"
  let ?rest = "drop (length (header_bytes UDT md)) ?d"
  let ?w' = "w\<lparr>mem := (mem w)(buffer md := header_bytes UDT md @ ?rest)\<rparr>"
  have seq: "js_and (sequenceNumber md) (BIT_FIELD_MASK UDT) = 0"
    using low27_and [OF s, of "0xF8000000"] by (simp add: js_and_def ToInt32_def UDT_def)
  have pos: "(if True then 0 else dataPosition md) = int 0" by simp
  have len': "int 0 + totalHeaderSize (isPartOfMessage md) \<le> int (length ?d)"
    using len by simp
  have wr: "writeHeader UDT True w md = Inr (?w', md)"
    using writeHeader_in_view [OF seq pos len'] by (simp add: overwrite_def)
  have b: "mem ?w' (buffer md) = header_bytes UDT md @ ?rest" by simp
  have l4: "4 \<le> length (mem ?w' (buffer md))"
    unfolding b using length_header_bytes [of UDT md]
    by (simp add: totalHeaderSize_def split: if_splits)
  have lh: "totalHeaderSize (isPartOfMessage md) \<le> int (length (mem ?w' (buffer md)))"
    unfolding b using length_header_bytes [of UDT md] by simp
  have c: "js_and (leading_word UDT (mem ?w' (buffer md))) (CONTROL_BIT_MASK UDT) = 0"
    unfolding b leading_word_header_bytes using first_word_decode(1) [OF s o] .
  have mb: "(0 < js_and (leading_word UDT (mem ?w' (buffer md))) (MESSAGE_BIT_MASK UDT))
            = isPartOfMessage md"
    unfolding b leading_word_header_bytes using first_word_decode(3) [OF s o] .
  have "reparse UDT (writeHeader UDT True w md)
        = fromReceivedPacket UDT (buffer md) (packetSize md) ?w'"
    unfolding wr by (simp add: reparse_def)
  also have "\<dots> = Inr (?w', decoded UDT (header_bytes UDT md @ ?rest)
                               (BasePacket_received (buffer md) (packetSize md)))"
    unfolding fromReceivedPacket_eq [OF l4] c mb
    using lh decoded_header_bytes(2) [OF s o m p n] by simp
  finally show ?thesis
    using decoded_header_bytes(1) [OF s o m p n] by simp
qed

text \<open>
  C1. Parsing the header bytes of a written packet back should give the fields that
  were written. It does not for the first packet of a message: the packet written with
  message number 9, position \<open>FIRST\<close> (2) and part number 0 holds these fields, and
  \<open>#readHeader\<close> reads its bytes back with position \<open>-2\<close>, because it extracts the
  position with the sign-propagating \<open>>>\<close> from a word whose top bit is set. The other
  five fields come back as written, as they do for every header by
  \<open>header_round_trip\<close>.
\<close>

theorem C1_first_position_read_back_negative:
  "header_fields first_of_message = Inr (False, True, 0, 9, FIRST, 0) \<and>
   header_fields (reparse UDT first_of_message) = Inr (False, True, 0, 9, - 2, 0)"
  by code_simp

section \<open>A packet created for writing\<close>

lemma Packet_new_eq:
  assumes n: "n = (if capacity = -1 then MAX_PACKET_SIZE U
                   else totalHeaderSize partOfMessage + capacity)"
      and h: "totalHeaderSize partOfMessage \<le> n"
      and m: "n \<le> MAX_PACKET_SIZE U"
  shows "\<exists>w' md. Packet_new U capacity reliable partOfMessage w = Inr (w', md) \<and>
           isReliable md = reliable \<and> isPartOfMessage md = partOfMessage \<and>
           dataPosition md = totalHeaderSize partOfMessage \<and>
           packetSize md = n \<and> int (length (mem w' (buffer md))) = n \<and>
           drop (nat (totalHeaderSize partOfMessage)) (mem w' (buffer md)) =
             replicate (nat (n - totalHeaderSize partOfMessage)) 0"
proof -
  let ?w1 = "w\<lparr>mem := (mem w)(allocated w := replicate (nat n) 0),
               allocated := Suc (allocated w)\<rparr>"
  let ?md = "new_MessageData\<lparr>buffer := allocated w, packetSize := n, isReliable := reliable,
               isPartOfMessage := partOfMessage\<rparr>"
  have n0: "0 \<le> n" using h by (simp add: totalHeaderSize_def split: if_splits)
  have bp: "BasePacket_new U (if capacity = -1 then -1 else totalHeaderSize partOfMessage + capacity) w
            = Inr (?w1, new_MessageData\<lparr>buffer := allocated w, packetSize := n\<rparr>)"
    using n n0 h m by (auto simp: BasePacket_new_def maxPayloadSize_def Let_def totalHeaderSize_def)
  have seq: "js_and (sequenceNumber ?md) (BIT_FIELD_MASK U) = 0"
    by (simp add: new_MessageData_def)
  have pos: "(if False then 0 else dataPosition ?md) = int 0"
    by (simp add: new_MessageData_def)
  have len: "int 0 + totalHeaderSize (isPartOfMessage ?md) \<le> int (length (mem ?w1 (buffer ?md)))"
    using h n0 by simp
  note wh = writeHeader_in_view [OF seq pos len]
  have hl: "length (header_bytes U ?md) \<le> nat n"
    using h length_header_bytes [of U ?md] by simp
  have hlen: "length (header_bytes U ?md) = nat (totalHeaderSize partOfMessage)"
    using nat_totalHeaderSize [of ?md U] by simp
  have "drop (length (header_bytes U ?md)) (overwrite (replicate (nat n) 0) 0 (header_bytes U ?md))
        = drop (length (header_bytes U ?md)) (replicate (nat n) 0)"
    by (rule overwrite_at_start) (use hl in simp)
  also have "\<dots> = replicate (nat n - length (header_bytes U ?md)) 0" by simp
  also have "nat n - length (header_bytes U ?md) = nat (n - totalHeaderSize partOfMessage)"
    unfolding hlen using h by (simp add: nat_diff_distrib totalHeaderSize_def)
  finally have dr: "drop (nat (totalHeaderSize partOfMessage))
                      (overwrite (replicate (nat n) 0) 0 (header_bytes U ?md))
                    = replicate (nat (n - totalHeaderSize partOfMessage)) 0"
    unfolding hlen .
  have ln: "length (overwrite (replicate (nat n) 0) 0 (header_bytes U ?md)) = nat n"
    using length_overwrite [of 0 "header_bytes U ?md" "replicate (nat n) 0"] hl by simp
  show ?thesis
    unfolding Packet_new_def bp
    using wh dr ln n0 by (simp add: new_MessageData_def)
qed

lemma Packet_new_too_large:
  assumes "capacity \<noteq> -1"
      and "MAX_PACKET_SIZE U < totalHeaderSize partOfMessage + capacity"
  shows "Packet_new U capacity reliable partOfMessage w = Inl AssertionFailed"
  using assms by (simp add: Packet_new_def BasePacket_new_def maxPayloadSize_def Let_def)

text \<open>
  C2, as amended. For every capacity of at least 0 that, together with the header (4
  bytes, 12 when part of a message), stays within the maximum payload size, \<open>new
  Packet(capacity, reliable, partOfMessage)\<close> returns a packet with these flags whose
  size and buffer length are the header size plus the capacity, and every byte after
  the header is zero. For every capacity of at least 0 that, together with the header,
  exceeds the maximum payload size, the constructor fails its assertion and gives no
  packet. With capacity \<open>-1\<close> the size and the buffer length are the maximum payload
  size, and again every byte after the header is zero; this needs the maximum payload
  size to hold the header.
\<close>

theorem C2_fresh_packet_size_and_zero_payload:
  "(0 \<le> capacity \<and> totalHeaderSize partOfMessage + capacity \<le> maxPayloadSize U \<longrightarrow>
      (\<exists>w' md. Packet_new U capacity reliable partOfMessage w = Inr (w', md) \<and>
         isReliable md = reliable \<and> isPartOfMessage md = partOfMessage \<and>
         packetSize md = totalHeaderSize partOfMessage + capacity \<and>
         int (length (mem w' (buffer md))) = totalHeaderSize partOfMessage + capacity \<and>
         drop (nat (totalHeaderSize partOfMessage)) (mem w' (buffer md)) =
           replicate (nat capacity) 0)) \<and>
   (0 \<le> capacity \<and> maxPayloadSize U < totalHeaderSize partOfMessage + capacity \<longrightarrow>
      Packet_new U capacity reliable partOfMessage w = Inl AssertionFailed) \<and>
   (totalHeaderSize partOfMessage \<le> maxPayloadSize U \<longrightarrow>
      (\<exists>w' md. Packet_new U (- 1) reliable partOfMessage w = Inr (w', md) \<and>
         isReliable md = reliable \<and> isPartOfMessage md = partOfMessage \<and>
         packetSize md = maxPayloadSize U \<and>
         int (length (mem w' (buffer md))) = maxPayloadSize U \<and>
         drop (nat (totalHeaderSize partOfMessage)) (mem w' (buffer md)) =
           replicate (nat (maxPayloadSize U - totalHeaderSize partOfMessage)) 0))"
proof (intro conjI impI)
  assume c: "0 \<le> capacity \<and> totalHeaderSize partOfMessage + capacity \<le> maxPayloadSize U"
  then have e: "totalHeaderSize partOfMessage + capacity =
        (if capacity = -1 then MAX_PACKET_SIZE U else totalHeaderSize partOfMessage + capacity)"
    and h: "totalHeaderSize partOfMessage \<le> totalHeaderSize partOfMessage + capacity"
    and m: "totalHeaderSize partOfMessage + capacity \<le> MAX_PACKET_SIZE U"
    by (simp_all add: maxPayloadSize_def)
  from Packet_new_eq [OF e h m, of reliable w] c
  show "\<exists>w' md. Packet_new U capacity reliable partOfMessage w = Inr (w', md) \<and>
         isReliable md = reliable \<and> isPartOfMessage md = partOfMessage \<and>
         packetSize md = totalHeaderSize partOfMessage + capacity \<and>
         int (length (mem w' (buffer md))) = totalHeaderSize partOfMessage + capacity \<and>
         drop (nat (totalHeaderSize partOfMessage)) (mem w' (buffer md)) =
           replicate (nat capacity) 0"
    by auto
next
  assume c: "0 \<le> capacity \<and> maxPayloadSize U < totalHeaderSize partOfMessage + capacity"
  then have "capacity \<noteq> -1"
    and "MAX_PACKET_SIZE U < totalHeaderSize partOfMessage + capacity"
    by (simp_all add: maxPayloadSize_def)
  then show "Packet_new U capacity reliable partOfMessage w = Inl AssertionFailed"
    by (rule Packet_new_too_large)
next
  assume "totalHeaderSize partOfMessage \<le> maxPayloadSize U"
  then have m: "totalHeaderSize partOfMessage \<le> MAX_PACKET_SIZE U"
    by (simp add: maxPayloadSize_def)
  have e: "MAX_PACKET_SIZE U =
        (if (- 1 :: int) = -1 then MAX_PACKET_SIZE U else totalHeaderSize partOfMessage + (- 1))"
    by simp
  have "MAX_PACKET_SIZE U \<le> MAX_PACKET_SIZE U" by simp
  from Packet_new_eq [OF e m this, of reliable w]
  show "\<exists>w' md. Packet_new U (- 1) reliable partOfMessage w = Inr (w', md) \<and>
         isReliable md = reliable \<and> isPartOfMessage md = partOfMessage \<and>
         packetSize md = maxPayloadSize U \<and>
         int (length (mem w' (buffer md))) = maxPayloadSize U \<and>
         drop (nat (totalHeaderSize partOfMessage)) (mem w' (buffer md)) =
           replicate (nat (maxPayloadSize U - totalHeaderSize partOfMessage)) 0"
    by (auto simp: maxPayloadSize_def)
qed

text \<open>
  The witness creates message packets of capacity 8, of capacity 1453, one byte more
  than the maximum of 1464 leaves after the 12-byte header, and of capacity \<open>-1\<close>.
\<close>

theorem C2_witness:
  "((0::int) \<le> 8 \<and> totalHeaderSize True + 8 \<le> maxPayloadSize UDT) \<and>
   (\<exists>w' md. Packet_new UDT 8 True True empty_world = Inr (w', md) \<and>
      isReliable md = True \<and> isPartOfMessage md = True \<and>
      packetSize md = 20 \<and> int (length (mem w' (buffer md))) = 20 \<and>
      drop 12 (mem w' (buffer md)) = replicate 8 0) \<and>
   ((0::int) \<le> 1453 \<and> maxPayloadSize UDT < totalHeaderSize True + 1453) \<and>
   Packet_new UDT 1453 True True empty_world = Inl AssertionFailed \<and>
   totalHeaderSize True \<le> maxPayloadSize UDT \<and>
   (\<exists>w' md. Packet_new UDT (- 1) True True empty_world = Inr (w', md) \<and>
      isReliable md = True \<and> isPartOfMessage md = True \<and>
      packetSize md = 1464 \<and> int (length (mem w' (buffer md))) = 1464 \<and>
      drop 12 (mem w' (buffer md)) = replicate 1452 0)"
  using C2_fresh_packet_size_and_zero_payload [of 8 True UDT True empty_world]
    C2_fresh_packet_size_and_zero_payload [of 1453 True UDT True empty_world]
  by (simp add: totalHeaderSize_def maxPayloadSize_def UDT_def)

text \<open>
  The claim as stated fails for a capacity of 1461 without the message flag: with the
  4-byte header the packet would have 1465 bytes, one more than the maximum payload
  size, and the constructor fails its assertion.
\<close>

theorem C2_counterexample:
  "(0::int) \<le> 1461 \<and> maxPayloadSize UDT = 1464 \<and>
   header_fields (Packet_new UDT 1461 False False empty_world) = Inl AssertionFailed"
  by code_simp

section \<open>A packet created from received bytes\<close>

lemma fromReceivedPacket_short:
  assumes "length (mem w r) < 4"
  shows "fromReceivedPacket U r sz w = Inl RangeError"
  using assms getUint32_not_in_view [of 0 w r]
  by (simp add: fromReceivedPacket_def readHeader_def BasePacket_received_def
      new_MessageData_def)

text \<open>
  C3, as amended. Constructing a packet from a received buffer fails the assertion
  exactly when the buffer holds the 4-byte header word and the control bit of that
  word is set. When the word is there and its control bit is clear, the assertion
  passes, and the bytes are decoded as a data packet provided the buffer holds the
  whole header, 4 bytes or 12 when the message bit is set: the constructor then
  returns the decoded message data and leaves every buffer as it was. When the buffer
  is shorter than its header, or than 4 bytes, the constructor throws a \<open>RangeError\<close>
  instead.
\<close>

theorem C3_assertion_iff_control_bit:
  "(fromReceivedPacket U r sz w = Inl AssertionFailed \<longleftrightarrow>
      4 \<le> length (mem w r) \<and>
      js_and (leading_word U (mem w r)) (CONTROL_BIT_MASK U) \<noteq> 0) \<and>
   (4 \<le> length (mem w r) \<and>
    js_and (leading_word U (mem w r)) (CONTROL_BIT_MASK U) = 0 \<longrightarrow>
      (if totalHeaderSize (0 < js_and (leading_word U (mem w r)) (MESSAGE_BIT_MASK U))
            \<le> int (length (mem w r))
       then \<exists>w'. fromReceivedPacket U r sz w =
                    Inr (w', decoded U (mem w r) (BasePacket_received r sz)) \<and>
                  mem w' = mem w
       else fromReceivedPacket U r sz w = Inl RangeError)) \<and>
   (length (mem w r) < 4 \<longrightarrow> fromReceivedPacket U r sz w = Inl RangeError)"
proof (cases "4 \<le> length (mem w r)")
  case True
  then show ?thesis
    unfolding fromReceivedPacket_eq [OF True] by auto
next
  case False
  then have "length (mem w r) < 4" by simp
  from fromReceivedPacket_short [OF this] False show ?thesis by simp
qed

text \<open>
  The witness is the message packet of the unit test, with the control bit clear,
  reliable, part of message 9, position \<open>LAST\<close>, part 2; and a datagram of two bytes.
\<close>

theorem C3_witness:
  "(4 \<le> length (mem received_message 0) \<and>
    js_and (leading_word UDT (mem received_message 0)) (CONTROL_BIT_MASK UDT) = 0) \<and>
   header_fields (fromReceivedPacket UDT 0 14 received_message) =
     Inr (True, True, 101329114, 9, LAST, 2) \<and>
   length (mem (received [0x03, 0x00]) 0) < 4 \<and>
   fromReceivedPacket UDT 0 2 (received [0x03, 0x00]) = Inl RangeError"
proof -
  have h: "4 \<le> length (mem received_message 0)" by code_simp
  have c: "js_and (leading_word UDT (mem received_message 0)) (CONTROL_BIT_MASK UDT) = 0"
    by code_simp
  have l: "totalHeaderSize (0 < js_and (leading_word UDT (mem received_message 0))
                                 (MESSAGE_BIT_MASK UDT))
             \<le> int (length (mem received_message 0))"
    by code_simp
  have d: "header_fields (Inr (w', decoded UDT (mem received_message 0) (BasePacket_received 0 14)))
           = Inr (True, True, 101329114, 9, LAST, 2)" for w'
    by code_simp
  have s: "length (mem (received [0x03, 0x00]) 0) < 4" by code_simp
  from C3_assertion_iff_control_bit [of UDT 0 14 received_message]
    C3_assertion_iff_control_bit [of UDT 0 2 "received [0x03, 0x00]"] c l d h s
  show ?thesis by auto
qed

text \<open>
  The claim as stated fails on a 4-byte datagram whose control bit is clear and whose
  message bit is set: the assertion passes, and reading the second header word throws.
\<close>

theorem C3_counterexample:
  "js_and (leading_word UDT (mem truncated_message 0)) (CONTROL_BIT_MASK UDT) = 0 \<and>
   header_fields (fromReceivedPacket UDT 0 4 truncated_message) = Inl RangeError"
  by code_simp

text \<open>
  C6, as amended. For every received buffer that holds the 4-byte header word with an
  obfuscation level other than 0 in it, the constructor succeeds exactly when the
  control bit is clear and the buffer holds the whole header, 4 bytes or 12 when the
  message bit is set. It then returns a packet on the received buffer with that
  obfuscation level, and the only thing it changes is the console, which gets the one
  warning: every buffer, and so the payload, is left exactly as received. When the
  control bit is set the constructor fails its assertion, and when the buffer is
  shorter than the header it throws a \<open>RangeError\<close>.
\<close>

theorem C6_obfuscated_packet_left_as_received:
  assumes "4 \<le> length (mem w r)"
      and "js_sar (js_and (leading_word U (mem w r)) (OBFUSCATION_LEVEL_BIT_MASK U))
             (OBFUSCATION_LEVEL_OFFSET U) \<noteq> NoObfuscation"
  shows "fromReceivedPacket U r sz w =
           (if js_and (leading_word U (mem w r)) (CONTROL_BIT_MASK U) \<noteq> 0
            then Inl AssertionFailed
            else if int (length (mem w r))
                    < totalHeaderSize (0 < js_and (leading_word U (mem w r)) (MESSAGE_BIT_MASK U))
            then Inl RangeError
            else Inr (w\<lparr>console := console w @ [undo_obfuscation_warning]\<rparr>,
                      decoded U (mem w r) (BasePacket_received r sz))) \<and>
         buffer (decoded U (mem w r) (BasePacket_received r sz)) = r \<and>
         obfuscationLevel (decoded U (mem w r) (BasePacket_received r sz)) =
           js_sar (js_and (leading_word U (mem w r)) (OBFUSCATION_LEVEL_BIT_MASK U))
             (OBFUSCATION_LEVEL_OFFSET U)"
  unfolding fromReceivedPacket_eq [OF assms(1)] using assms(2)
  by (simp add: decoded_def Let_def BasePacket_received_def new_MessageData_def)

text \<open>
  The witness is a 6-byte packet with obfuscation level 1: it is returned with
  sequence number 1 and that level, its two payload bytes as received, and the console
  holds the warning. A 4-byte datagram with the control bit set and obfuscation level
  3 fails the assertion.
\<close>

theorem C6_witness:
  "4 \<le> length (mem obfuscated_packet 0) \<and>
   js_sar (js_and (leading_word UDT (mem obfuscated_packet 0)) (OBFUSCATION_LEVEL_BIT_MASK UDT))
     (OBFUSCATION_LEVEL_OFFSET UDT) = 1 \<and>
   fromReceivedPacket UDT 0 6 obfuscated_packet =
     Inr (obfuscated_packet\<lparr>console := [undo_obfuscation_warning]\<rparr>,
          decoded UDT (mem obfuscated_packet 0) (BasePacket_received 0 6)) \<and>
   buffer (decoded UDT (mem obfuscated_packet 0) (BasePacket_received 0 6)) = 0 \<and>
   obfuscationLevel (decoded UDT (mem obfuscated_packet 0) (BasePacket_received 0 6)) = 1 \<and>
   sequenceNumber (decoded UDT (mem obfuscated_packet 0) (BasePacket_received 0 6)) = 1 \<and>
   drop 4 (mem obfuscated_packet 0) = [0x5a, 0xa5] \<and>
   4 \<le> length (mem obfuscated_control 0) \<and>
   js_sar (js_and (leading_word UDT (mem obfuscated_control 0)) (OBFUSCATION_LEVEL_BIT_MASK UDT))
     (OBFUSCATION_LEVEL_OFFSET UDT) = 3 \<and>
   fromReceivedPacket UDT 0 4 obfuscated_control = Inl AssertionFailed"
proof -
  have h1: "4 \<le> length (mem obfuscated_packet 0)" by code_simp
  have h2: "js_and (leading_word UDT (mem obfuscated_packet 0)) (CONTROL_BIT_MASK UDT) = 0"
    by code_simp
  have h3: "\<not> int (length (mem obfuscated_packet 0))
              < totalHeaderSize (0 < js_and (leading_word UDT (mem obfuscated_packet 0))
                                       (MESSAGE_BIT_MASK UDT))"
    by code_simp
  have h4: "js_sar (js_and (leading_word UDT (mem obfuscated_packet 0))
                      (OBFUSCATION_LEVEL_BIT_MASK UDT))
              (OBFUSCATION_LEVEL_OFFSET UDT) = 1"
    by code_simp
  have h4': "js_sar (js_and (leading_word UDT (mem obfuscated_packet 0))
                       (OBFUSCATION_LEVEL_BIT_MASK UDT))
               (OBFUSCATION_LEVEL_OFFSET UDT) \<noteq> NoObfuscation"
    unfolding h4 by (simp add: NoObfuscation_def)
  have c: "console obfuscated_packet = []" by code_simp
  have s: "sequenceNumber (decoded UDT (mem obfuscated_packet 0) (BasePacket_received 0 6)) = 1"
    by code_simp
  have p: "drop 4 (mem obfuscated_packet 0) = [0x5a, 0xa5]" by code_simp
  have k1: "4 \<le> length (mem obfuscated_control 0)" by code_simp
  have k2: "js_and (leading_word UDT (mem obfuscated_control 0)) (CONTROL_BIT_MASK UDT) \<noteq> 0"
    by code_simp
  have k4: "js_sar (js_and (leading_word UDT (mem obfuscated_control 0))
                      (OBFUSCATION_LEVEL_BIT_MASK UDT))
              (OBFUSCATION_LEVEL_OFFSET UDT) = 3"
    by code_simp
  have k4': "js_sar (js_and (leading_word UDT (mem obfuscated_control 0))
                       (OBFUSCATION_LEVEL_BIT_MASK UDT))
               (OBFUSCATION_LEVEL_OFFSET UDT) \<noteq> NoObfuscation"
    unfolding k4 by (simp add: NoObfuscation_def)
  from C6_obfuscated_packet_left_as_received [OF h1 h4', of 6]
    C6_obfuscated_packet_left_as_received [OF k1 k4', of 4] h1 h2 h3 h4 c s p k1 k2 k4
  show ?thesis by simp
qed

text \<open>
  The claim as stated fails on two 4-byte datagrams with an obfuscation level other
  than 0: with the message bit set and the 8 bytes of the message header missing, the
  constructor throws a \<open>RangeError\<close>; with the control bit set, it fails its assertion.
\<close>

theorem C6_counterexample:
  "js_sar (js_and (leading_word UDT (mem obfuscated_truncated 0)) (OBFUSCATION_LEVEL_BIT_MASK UDT))
     (OBFUSCATION_LEVEL_OFFSET UDT) = 1 \<and>
   header_fields (fromReceivedPacket UDT 0 4 obfuscated_truncated) = Inl RangeError \<and>
   js_sar (js_and (leading_word UDT (mem obfuscated_control 0)) (OBFUSCATION_LEVEL_BIT_MASK UDT))
     (OBFUSCATION_LEVEL_OFFSET UDT) = 3 \<and>
   header_fields (fromReceivedPacket UDT 0 4 obfuscated_control) = Inl AssertionFailed"
  by code_simp

section \<open>Copying a packet\<close>

lemma BasePacket_copy_eq: "BasePacket_copy other = other"
  by (cases other) (simp add: BasePacket_copy_def new_MessageData_def)

lemma createCopy_eq:
  "createCopy p = p\<lparr>dataPosition := totalHeaderSize (isPartOfMessage p)\<rparr>"
  by (simp add: createCopy_def BasePacket_copy_eq)

lemma setUint8_written:
  assumes "setUint8 w r pos v = Inr w'"
  shows "mem w' r = (mem w r)[nat pos := word_of_int v]"
  using assms by (auto simp: setUint8_def DataView_setUint8_def split: if_splits)

text \<open>
  C4, as amended. For every packet, the copy made by \<open>Packet.createCopy\<close> has the
  fields of the original with the cursor at the end of the header, and shows the same
  byte buffer as the original: nothing is allocated and no byte is duplicated. A byte
  written with \<open>setUint8\<close> through the copy is then the byte that the original holds at
  that position, and a byte written through the original is the byte that the copy
  holds.
\<close>

theorem C4_copy_shares_buffer:
  "createCopy p = p\<lparr>dataPosition := totalHeaderSize (isPartOfMessage p)\<rparr> \<and>
   buffer (createCopy p) = buffer p \<and>
   (\<forall>pos v w'. setUint8 w (buffer (createCopy p)) pos v = Inr w' \<longrightarrow>
      mem w' (buffer p) = (mem w (buffer p))[nat pos := word_of_int v]) \<and>
   (\<forall>pos v w'. setUint8 w (buffer p) pos v = Inr w' \<longrightarrow>
      mem w' (buffer (createCopy p)) = (mem w (buffer p))[nat pos := word_of_int v])"
  by (auto simp: createCopy_eq dest: setUint8_written)

text \<open>
  The witness copies the message packet of capacity 8 and sets the byte at the copy's
  cursor, the first payload byte, through the copy: the original's buffer then holds
  \<open>0xFF\<close> there. Setting the last payload byte through the original instead, the
  copy's buffer holds \<open>0xAA\<close> there.
\<close>

theorem C4_witness:
  "buffer copied = buffer (packet_of message_packet) \<and>
   dataPosition copied = 12 \<and>
   (\<exists>w'. copy_overwritten = Inr w') \<and>
   bytes_of copy_overwritten (buffer (packet_of message_packet))
     = (mem (world_of message_packet) (buffer (packet_of message_packet)))[12 := 255] \<and>
   (\<exists>w'. original_overwritten = Inr w') \<and>
   bytes_of original_overwritten (buffer copied)
     = (mem (world_of message_packet) (buffer (packet_of message_packet)))[19 := 170]"
proof -
  let ?w = "world_of message_packet" and ?p = "packet_of message_packet"
  note t = C4_copy_shares_buffer [of ?p ?w]
  have d: "dataPosition copied = 12" by code_simp
  have l: "length (mem ?w (buffer ?p)) = 20" by code_simp
  from t have b: "buffer copied = buffer ?p" by (simp add: copied_def)
  have "in_view (mem ?w (buffer copied)) (dataPosition copied) 1"
    unfolding b d using l by (simp add: in_view_def)
  then obtain w' where ow: "copy_overwritten = Inr w'"
    by (simp add: copy_overwritten_def setUint8_def DataView_setUint8_def)
  then have "setUint8 ?w (buffer (createCopy ?p)) 12 255 = Inr w'"
    using d by (simp add: copy_overwritten_def copied_def)
  with t have "mem w' (buffer ?p) = (mem ?w (buffer ?p))[nat 12 := word_of_int 255]"
    by blast
  then have c1: "bytes_of copy_overwritten (buffer ?p) = (mem ?w (buffer ?p))[12 := 255]"
    unfolding ow by (simp add: bytes_of_def)
  have "in_view (mem ?w (buffer ?p)) 19 1"
    using l by (simp add: in_view_def)
  then obtain w'' where oo: "original_overwritten = Inr w''"
    by (simp add: original_overwritten_def setUint8_def DataView_setUint8_def)
  then have "setUint8 ?w (buffer ?p) 19 170 = Inr w''"
    by (simp add: original_overwritten_def)
  with t have "mem w'' (buffer (createCopy ?p)) = (mem ?w (buffer ?p))[nat 19 := word_of_int 170]"
    by blast
  then have c2: "bytes_of original_overwritten (buffer copied) = (mem ?w (buffer ?p))[19 := 170]"
    unfolding oo by (simp add: bytes_of_def copied_def)
  from b d ow oo c1 c2 show ?thesis by blast
qed

text \<open>
  The claim as stated fails on that copy: the original's eight payload bytes are 0
  after the copy is made, and the first of them is \<open>0xFF\<close> after the write through the
  copy.
\<close>

theorem C4_counterexample:
  "drop 12 (mem (world_of message_packet) (buffer (packet_of message_packet)))
     = [0, 0, 0, 0, 0, 0, 0, 0] \<and>
   drop 12 (bytes_of copy_overwritten (buffer (packet_of message_packet)))
     = [255, 0, 0, 0, 0, 0, 0, 0]"
  by code_simp

section \<open>Rewriting the header of a written packet\<close>

lemma setUint32_not_in_view:
  assumes "\<not> k + 4 \<le> length (mem w r)"
  shows "setUint32 w r (int k) v le = Inl RangeError"
  using assms by (simp add: setUint32_def DataView_setUint32_def in_view_def)

lemma writeMessageWords_short:
  assumes p: "dataPosition md = int k" and s: "\<not> k + 8 \<le> length (mem w (buffer md))"
  shows "writeMessageWords U w md = Inl RangeError"
proof (cases "k + 4 \<le> length (mem w (buffer md))")
  case False
  from setUint32_not_in_view [OF False] show ?thesis
    by (simp add: writeMessageWords_def p)
next
  case True
  let ?b = "uint32_to_bytes (LITTLE_ENDIAN U) (word_of_int (messageNumberAndBitField_of U md))"
  let ?w1 = "w\<lparr>mem := (mem w)(buffer md := overwrite (mem w (buffer md)) k ?b)\<rparr>"
  have l: "length (mem ?w1 (buffer md)) = length (mem w (buffer md))"
    using True by (simp add: length_overwrite)
  have n: "\<not> (k + 4) + 4 \<le> length (mem ?w1 (buffer md))"
    unfolding l using s by simp
  have i: "int k + 4 = int (k + 4)" by simp
  show ?thesis
    unfolding writeMessageWords_def p setUint32_in_view [OF True]
    using setUint32_not_in_view [OF n] by (simp add: Let_def i del: of_nat_add)
qed

lemma writeHeader_short:
  assumes seq: "js_and (sequenceNumber md) (BIT_FIELD_MASK U) = 0"
      and s: "int (length (mem w (buffer md))) < totalHeaderSize (isPartOfMessage md)"
  shows "writeHeader U True w md = Inl RangeError"
proof (cases "0 + 4 \<le> length (mem w (buffer md))")
  case False
  from setUint32_not_in_view [OF False] show ?thesis
    by (simp add: writeHeader_def seq Let_def)
next
  case True
  then have pm: "isPartOfMessage md" using s by (simp add: totalHeaderSize_def split: if_splits)
  let ?b = "uint32_to_bytes (LITTLE_ENDIAN U) (word_of_int (seqNumBitField_of U md))"
  let ?w1 = "w\<lparr>mem := (mem w)(buffer md := overwrite (mem w (buffer md)) 0 ?b)\<rparr>"
  let ?md1 = "md\<lparr>dataPosition := 4\<rparr>"
  have l: "length (mem ?w1 (buffer md)) = length (mem w (buffer md))"
    using True by (simp add: length_overwrite)
  have p: "dataPosition ?md1 = int 4" by simp
  have n: "\<not> 4 + 8 \<le> length (mem ?w1 (buffer ?md1))"
    using l s pm by (simp add: totalHeaderSize_def)
  from writeMessageWords_short [OF p n]
  have "writeMessageWords U ?w1 ?md1 = Inl RangeError" .
  then show ?thesis
    using setUint32_in_view [OF True, of "seqNumBitField_of U md" "LITTLE_ENDIAN U"] pm
    by (simp add: writeHeader_def seq Let_def)
qed

lemma writeHeader_overwriting_eq:
  "writeHeader U True w md =
     (if js_and (sequenceNumber md) (BIT_FIELD_MASK U) \<noteq> 0 then Inl AssertionFailed
      else if int (length (mem w (buffer md))) < totalHeaderSize (isPartOfMessage md)
      then Inl RangeError
      else Inr (w\<lparr>mem := (mem w)(buffer md :=
                     header_bytes U md @
                     drop (nat (totalHeaderSize (isPartOfMessage md))) (mem w (buffer md)))\<rparr>,
                md))"
proof -
  consider "js_and (sequenceNumber md) (BIT_FIELD_MASK U) \<noteq> 0"
    | "js_and (sequenceNumber md) (BIT_FIELD_MASK U) = 0"
      "int (length (mem w (buffer md))) < totalHeaderSize (isPartOfMessage md)"
    | "js_and (sequenceNumber md) (BIT_FIELD_MASK U) = 0"
      "totalHeaderSize (isPartOfMessage md) \<le> int (length (mem w (buffer md)))"
    by fastforce
  then show ?thesis
  proof cases
    case 1
    then show ?thesis by (simp add: writeHeader_def)
  next
    case 2
    from writeHeader_short [OF 2] 2 show ?thesis by simp
  next
    case 3
    have pos: "(if True then 0 else dataPosition md) = int 0" by simp
    have len: "int 0 + totalHeaderSize (isPartOfMessage md) \<le> int (length (mem w (buffer md)))"
      using 3(2) by simp
    from writeHeader_in_view [OF 3(1) pos len] 3 show ?thesis
      by (simp add: overwrite_def nat_totalHeaderSize [of md U])
  qed
qed

text \<open>
  C5, as amended. \<open>writeSequenceNumber\<close> fails its assertion when the new sequence
  number reaches into the flag bits, and throws a \<open>RangeError\<close> when the buffer is
  shorter than the packet's header (4 bytes, 12 when the packet is part of a message).
  Otherwise it returns the packet with only its sequence number changed, so with
  \<open>dataPosition\<close> as before; the packet's buffer then starts with the header serialized
  from the new fields and continues with the bytes that followed the header before,
  and no other buffer has changed.

  \<open>writeMessageNumber\<close> makes the packet part of a message and writes the 12-byte
  message header. It fails the assertion when the packet's sequence number reaches
  into the flag bits, and throws a \<open>RangeError\<close> when the buffer has fewer than 12
  bytes. Otherwise it returns the packet with the message fields set and
  \<open>dataPosition\<close> as before; the packet's buffer then starts with the 12 bytes of the
  message header serialized from the new fields and continues with the bytes that
  followed the first 12 before, and no other buffer has changed. On a packet created
  as part of a message these 12 bytes are its header, so the payload is untouched; on
  a packet created without the message flag they are its header and the first 8
  payload bytes.
\<close>

theorem C5_header_rewrite:
  "writeSequenceNumber U s w md =
     (if js_and s (BIT_FIELD_MASK U) \<noteq> 0 then Inl AssertionFailed
      else if int (length (mem w (buffer md))) < totalHeaderSize (isPartOfMessage md)
      then Inl RangeError
      else Inr (w\<lparr>mem := (mem w)(buffer md :=
                     header_bytes U (md\<lparr>sequenceNumber := s\<rparr>) @
                     drop (nat (totalHeaderSize (isPartOfMessage md))) (mem w (buffer md)))\<rparr>,
                md\<lparr>sequenceNumber := s\<rparr>)) \<and>
   writeMessageNumber U m p n w md =
     (if js_and (sequenceNumber md) (BIT_FIELD_MASK U) \<noteq> 0 then Inl AssertionFailed
      else if length (mem w (buffer md)) < 12 then Inl RangeError
      else Inr (w\<lparr>mem := (mem w)(buffer md :=
                     header_bytes U (md\<lparr>isPartOfMessage := True, messageNumber := m,
                                         packetPosition := p, messagePartNumber := n\<rparr>) @
                     drop 12 (mem w (buffer md)))\<rparr>,
                md\<lparr>isPartOfMessage := True, messageNumber := m, packetPosition := p,
                   messagePartNumber := n\<rparr>))"
proof
  show "writeSequenceNumber U s w md =
     (if js_and s (BIT_FIELD_MASK U) \<noteq> 0 then Inl AssertionFailed
      else if int (length (mem w (buffer md))) < totalHeaderSize (isPartOfMessage md)
      then Inl RangeError
      else Inr (w\<lparr>mem := (mem w)(buffer md :=
                     header_bytes U (md\<lparr>sequenceNumber := s\<rparr>) @
                     drop (nat (totalHeaderSize (isPartOfMessage md))) (mem w (buffer md)))\<rparr>,
                md\<lparr>sequenceNumber := s\<rparr>))"
    unfolding writeSequenceNumber_def writeHeader_overwriting_eq by simp
  show "writeMessageNumber U m p n w md =
     (if js_and (sequenceNumber md) (BIT_FIELD_MASK U) \<noteq> 0 then Inl AssertionFailed
      else if length (mem w (buffer md)) < 12 then Inl RangeError
      else Inr (w\<lparr>mem := (mem w)(buffer md :=
                     header_bytes U (md\<lparr>isPartOfMessage := True, messageNumber := m,
                                         packetPosition := p, messagePartNumber := n\<rparr>) @
                     drop 12 (mem w (buffer md)))\<rparr>,
                md\<lparr>isPartOfMessage := True, messageNumber := m, packetPosition := p,
                   messagePartNumber := n\<rparr>))"
    unfolding writeMessageNumber_def writeHeader_overwriting_eq
    by (simp add: totalHeaderSize_def)
qed

text \<open>
  The witness rewrites the header of the message packet of capacity 8, whose buffer
  has 20 bytes: the 12 header bytes are those of the new fields, little-endian, the
  8 payload bytes are as before, and the cursor stays at 12.
\<close>

theorem C5_witness:
  "bytes_from 0 (writeSequenceNumber UDT 5 (world_of message_packet) (packet_of message_packet))
     = Inr ([5, 0, 0, 0x20, 0, 0, 0, 0, 0, 0, 0, 0] @ replicate 8 0) \<and>
   bytes_from 0 (writeMessageNumber UDT 9 LAST 2 (world_of message_packet)
                   (packet_of message_packet))
     = Inr ([0, 0, 0, 0x20, 9, 0, 0, 0x40, 2, 0, 0, 0] @ replicate 8 0) \<and>
   dataPosition (packet_of (writeSequenceNumber UDT 5 (world_of message_packet)
                              (packet_of message_packet))) = 12 \<and>
   dataPosition (packet_of (writeMessageNumber UDT 9 LAST 2 (world_of message_packet)
                              (packet_of message_packet))) = 12"
proof -
  let ?w = "world_of message_packet" and ?p = "packet_of message_packet"
  have a: "js_and 5 (BIT_FIELD_MASK UDT) = 0"
          "js_and (sequenceNumber ?p) (BIT_FIELD_MASK UDT) = 0"
    by code_simp+
  have l: "\<not> int (length (mem ?w (buffer ?p))) < totalHeaderSize (isPartOfMessage ?p)"
          "\<not> length (mem ?w (buffer ?p)) < 12"
    by code_simp+
  have t: "nat (totalHeaderSize (isPartOfMessage ?p)) = 12" by code_simp
  have d: "drop 12 (mem ?w (buffer ?p)) = replicate 8 0" by code_simp
  have h: "header_bytes UDT (?p\<lparr>sequenceNumber := 5\<rparr>) = [5, 0, 0, 0x20, 0, 0, 0, 0, 0, 0, 0, 0]"
          "header_bytes UDT (?p\<lparr>isPartOfMessage := True, messageNumber := 9,
                                packetPosition := LAST, messagePartNumber := 2\<rparr>)
           = [0, 0, 0, 0x20, 9, 0, 0, 0x40, 2, 0, 0, 0]"
    by code_simp+
  have c: "dataPosition ?p = 12" by code_simp
  have r: "packet_of (Inr (w', md')) = md'" for w' :: world and md'
    by (simp add: packet_of_def)
  from C5_header_rewrite [of UDT 5 ?w ?p 9 LAST 2]
  show ?thesis
    by (simp add: a l t d h c r bytes_from_def)
qed

text \<open>
  The claim as stated fails for \<open>writeMessageNumber\<close> on packets that were created
  without the message flag. On one of capacity 8 the header has 4 bytes, and the 8
  payload bytes that follow, written with \<open>0xFF\<close>, are overwritten by the message
  words. On one of capacity 0 the buffer has the 4 bytes of the header, and the call
  throws a \<open>RangeError\<close>.
\<close>

theorem C5_counterexample:
  "header_fields filled_packet = Inr (False, False, 0, 0, ONLY, 0) \<and>
   bytes_from 4 filled_packet = Inr [255, 255, 255, 255, 255, 255, 255, 255] \<and>
   bytes_from 4 filled_packet_renumbered = Inr [1, 0, 0, 0, 0, 0, 0, 0] \<and>
   bytes_from 0 empty_packet = Inr [0, 0, 0, 0] \<and>
   header_fields empty_packet_renumbered = Inl RangeError"
  by code_simp

section \<open>The node registry\<close>

text \<open>
  C7. After \<open>reset\<close> the registry holds no node, so no node is found for any type or
  identity, and the local session identity is null; a second \<open>reset\<close> changes nothing,
  whatever its arguments.
\<close>

theorem C7_reset_empties_and_is_idempotent:
  "nodes (reset reason d nl) = [] \<and>
   sessionUUID (reset reason d nl) = Uuid_NULL \<and>
   soloNodeOfType t (reset reason d nl) = None \<and>
   nodeWithUUID u (reset reason d nl) = None \<and>
   reset reason' d' (reset reason d nl) = reset reason d nl"
  by (simp add: reset_def soloNodeOfType_def nodeWithUUID_def)

text \<open>
  C8. Whatever the caller's permission bits, the permission mask and the rest of the
  registry, \<open>muteNodeBySessionID\<close> and \<open>kickNodeBySessionID\<close> called with the null
  identity, the caller's own session identity or the "self" sentinel return the
  registry unchanged and do nothing but log the operation's invalid-identity warning,
  which differs from its other warnings: no packet is sent.
\<close>

theorem C8_mute_kick_invalid_identity:
  assumes "nodeID = Uuid_NULL \<or> nodeID = sessionUUID nl \<or> nodeID = AVATAR_SELF_ID"
  shows "muteNodeBySessionID canKick nodeID nl = (nl, [Warn MuteInvalidID]) \<and>
         kickNodeBySessionID canKick nodeID nl = (nl, [Warn KickInvalidID])"
  using assms by (auto simp: muteNodeBySessionID_def kickNodeBySessionID_def)

text \<open>
  The witness is an administrator with an audio mixer in the registry: its own
  identity is refused, while another identity gets the mute request sent.
\<close>

theorem C8_witness:
  "(sessionUUID admin_registry = Uuid_NULL \<or>
    sessionUUID admin_registry = sessionUUID admin_registry \<or>
    sessionUUID admin_registry = AVATAR_SELF_ID) \<and>
   muteNodeBySessionID 64 (sessionUUID admin_registry) admin_registry
     = (admin_registry, [Warn MuteInvalidID]) \<and>
   kickNodeBySessionID 64 (sessionUUID admin_registry) admin_registry
     = (admin_registry, [Warn KickInvalidID]) \<and>
   muteNodeBySessionID 64 200 admin_registry = (admin_registry, [SendMuteRequest 200 1234])"
proof -
  have h: "sessionUUID admin_registry = Uuid_NULL \<or>
           sessionUUID admin_registry = sessionUUID admin_registry \<or>
           sessionUUID admin_registry = AVATAR_SELF_ID"
    by simp
  have m: "muteNodeBySessionID 64 200 admin_registry
           = (admin_registry, [SendMuteRequest 200 1234])"
    by (simp add: muteNodeBySessionID_def admin_registry_def addOrUpdateNode_def
        audio_mixer_def Uuid_NULL_def AVATAR_SELF_ID_def getThisNodeCanKick_def
        soloNodeOfType_def)
  from C8_mute_kick_invalid_identity [OF h, of 64] m show ?thesis by simp
qed

section \<open>The connection state machine\<close>

lemma emit_fields [simp]:
  "location (emit e ds) = location ds" "state (emit e ds) = state ds"
  "refusalInfo (emit e ds) = refusalInfo ds" "errorInfo (emit e ds) = errorInfo ds"
  "onStateChanged (emit e ds) = onStateChanged ds"
  "domainCheckInTimer (emit e ds) = domainCheckInTimer ds" "DEBUG (emit e ds) = DEBUG ds"
  "timers (emit e ds) = timers ds" "starts (emit e ds) = starts ds"
  "nextTimer (emit e ds) = nextTimer ds"
  "trace (emit e ds) = trace ds @ [e]"
  by (simp_all add: emit_def)

lemma setState_fields:
  "state (setState st info ds) = st"
  "refusalInfo (setState st info ds) = (if st = REFUSED then info else '''')"
  "errorInfo (setState st info ds) = (if st = ERROR then info else '''')"
  "location (setState st info ds) = location ds"
  "domainCheckInTimer (setState st info ds) = domainCheckInTimer ds"
  "timers (setState st info ds) = timers ds"
  "starts (setState st info ds) = starts ds"
  "onStateChanged (setState st info ds) = onStateChanged ds"
  by (simp_all add: setState_def Let_def)

lemma setState_trace:
  "filter starts_connecting (trace (setState st info ds)) = filter starts_connecting (trace ds)"
  by (simp add: setState_def Let_def starts_connecting_def)

lemma setState_invariant: "info_invariant (setState st info ds)"
  by (simp add: info_invariant_def setState_fields)

lemma emit_invariant [simp]: "info_invariant (emit e ds) = info_invariant ds"
  by (simp add: info_invariant_def)

lemma stopDomainServerCheckins_fields [simp]:
  "state (stopDomainServerCheckins ds) = state ds"
  "refusalInfo (stopDomainServerCheckins ds) = refusalInfo ds"
  "errorInfo (stopDomainServerCheckins ds) = errorInfo ds"
  "location (stopDomainServerCheckins ds) = location ds"
  "starts (stopDomainServerCheckins ds) = starts ds"
  "domainCheckInTimer (stopDomainServerCheckins ds) = None"
  "timers (stopDomainServerCheckins ds) =
     (case domainCheckInTimer ds of None \<Rightarrow> timers ds | Some t \<Rightarrow> removeAll t (timers ds))"
  "filter starts_connecting (trace (stopDomainServerCheckins ds))
     = filter starts_connecting (trace ds)"
  by (simp_all add: stopDomainServerCheckins_def starts_connecting_def split: option.splits)

lemma disconnectedFromDomain_fields:
  "location (disconnectedFromDomain ds) = location ds"
  "starts (disconnectedFromDomain ds) = starts ds"
  "domainCheckInTimer ds = None \<Longrightarrow> domainCheckInTimer (disconnectedFromDomain ds) = None"
  "domainCheckInTimer ds = None \<Longrightarrow> timers (disconnectedFromDomain ds) = timers ds"
  "filter starts_connecting (trace (disconnectedFromDomain ds))
     = filter starts_connecting (trace ds)"
  by (simp_all add: disconnectedFromDomain_def setState_fields setState_trace)

lemma DomainHandler_disconnect_fields:
  "location (DomainHandler_disconnect emits r f ds) = location ds"
  "starts (DomainHandler_disconnect emits r f ds) = starts ds"
  "domainCheckInTimer ds = None \<Longrightarrow>
     domainCheckInTimer (DomainHandler_disconnect emits r f ds) = None"
  "domainCheckInTimer ds = None \<Longrightarrow> timers (DomainHandler_disconnect emits r f ds) = timers ds"
  "filter starts_connecting (trace (DomainHandler_disconnect emits r f ds))
     = filter starts_connecting (trace ds)"
  by (simp_all add: DomainHandler_disconnect_def Let_def disconnectedFromDomain_fields
      starts_connecting_def)

text \<open>
  What \<open>connect\<close> does with a value that is not a string, or with a string that trims to
  the empty string: it returns with the state \<open>ERROR\<close>, the detail string in
  \<open>errorInfo\<close>, no refusal detail and an empty location; it starts no lookup and sets no
  timer; the timer that the object holds is cleared; and a deferred start that is
  still pending finds the state \<open>ERROR\<close> when it runs and does nothing. The pending
  timers that the object does not hold stay pending.
\<close>

lemma connect_without_location:
  assumes "loc = NotAString \<or> (\<exists>s. loc = Str s \<and> trim s = '''')"
  shows "state (connect emits loc ds) = ERROR \<and>
         errorInfo (connect emits loc ds) = ''No location specified.'' \<and>
         refusalInfo (connect emits loc ds) = '''' \<and>
         location (connect emits loc ds) = '''' \<and>
         domainCheckInTimer (connect emits loc ds) = None \<and>
         timers (connect emits loc ds) =
           (case domainCheckInTimer ds of None \<Rightarrow> timers ds | Some t \<Rightarrow> removeAll t (timers ds)) \<and>
         starts (connect emits loc ds) = starts ds \<and>
         filter starts_connecting (trace (connect emits loc ds))
           = filter starts_connecting (trace ds) \<and>
         startTimerFired (connect emits loc ds) = connect emits loc ds"
proof -
  let ?ds1 = "case loc of
                Str s \<Rightarrow> ds\<lparr>location := trim s\<rparr>
              | NotAString \<Rightarrow>
                  (emit (ConsoleError
                     ''ERROR: DomainServer.connect() location parameter not a string!'') ds)
                    \<lparr>location := ''''\<rparr>"
  have l: "location ?ds1 = ''''" using assms by auto
  have t: "filter starts_connecting (trace ?ds1) = filter starts_connecting (trace ds)"
    by (cases loc) (simp_all add: starts_connecting_def)
  have f: "domainCheckInTimer ?ds1 = domainCheckInTimer ds" "timers ?ds1 = timers ds"
    "starts ?ds1 = starts ds"
    by (cases loc; simp)+
  have c: "connect emits loc ds =
           setState ERROR ''No location specified.''
             (DomainHandler_disconnect emits ''Invalid location'' False
                (stopDomainServerCheckins ?ds1))"
    using l by (simp add: connect_def Let_def)
  show ?thesis
    unfolding c
    by (simp add: setState_fields setState_trace DomainHandler_disconnect_fields l t f
        startTimerFired_def split: option.splits)
qed

text \<open>
  C9. After \<open>connect\<close> with an empty location the periodic check-ins should have
  stopped. They have not when \<open>connect\<close> was called twice before its deferred start
  ran: both starts run \<open>#sendDomainServerCheckIns\<close>, so two one-second timers (1 and 2)
  are pending and the object holds only the second. \<open>connect\<close> with the empty string
  then sets the state \<open>ERROR\<close> with its detail string and clears timer 2; timer 1
  stays pending, and when it fires, in the state \<open>ERROR\<close>, it sets a new timer and sends
  a check-in.
\<close>

theorem C9_check_ins_continue_after_double_start:
  "state twice_started = CONNECTING \<and>
   domainCheckInTimer twice_started = Some 2 \<and> timers twice_started = [1, 2] \<and>
   state twice_started_no_location = ERROR \<and>
   errorInfo twice_started_no_location = ''No location specified.'' \<and>
   domainCheckInTimer twice_started_no_location = None \<and>
   timers twice_started_no_location = [1] \<and>
   state twice_started_timer_fired = ERROR \<and>
   domainCheckInTimer twice_started_timer_fired = Some 3 \<and>
   drop (length (trace twice_started_no_location)) (trace twice_started_timer_fired)
     = [SetTimeoutCheckIn 3, SendDomainServerCheckIn]"
  by code_simp

lemma step_invariant: "info_invariant ds \<Longrightarrow> info_invariant (step ds a)"
proof (cases a)
  case (Connect emits loc)
  assume i: "info_invariant ds"
  have "info_invariant (case loc of
                Str s \<Rightarrow> ds\<lparr>location := trim s\<rparr>
              | NotAString \<Rightarrow>
                  (emit (ConsoleError
                     ''ERROR: DomainServer.connect() location parameter not a string!'') ds)
                    \<lparr>location := ''''\<rparr>)"
    using i by (cases loc) (simp_all add: info_invariant_def)
  then show ?thesis
    unfolding Connect
    by (simp add: connect_def Let_def setState_invariant info_invariant_def setState_fields)
next
  case (Disconnect emits)
  assume "info_invariant ds"
  then show ?thesis unfolding Disconnect by (simp add: disconnect_def setState_invariant)
next
  case (SetOnStateChanged cb)
  assume "info_invariant ds"
  then show ?thesis unfolding SetOnStateChanged
    by (cases cb) (simp_all add: set_onStateChanged_def info_invariant_def)
next
  case ConnectedToDomain
  then show ?thesis by (simp add: connectedToDomain_def setState_invariant)
next
  case DisconnectedFromDomain
  assume "info_invariant ds"
  then show ?thesis unfolding DisconnectedFromDomain
    by (simp add: disconnectedFromDomain_def setState_invariant)
next
  case (DomainConnectionRefused m c x)
  then show ?thesis by (simp add: domainConnectionRefused_def setState_invariant)
next
  case StartTimerFired
  assume "info_invariant ds"
  then show ?thesis unfolding StartTimerFired
    by (simp add: startTimerFired_def sendDomainServerCheckIns_def info_invariant_def)
next
  case (CheckInTimerFired t)
  assume "info_invariant ds"
  then show ?thesis unfolding CheckInTimerFired
    by (simp add: sendDomainServerCheckIns_def info_invariant_def)
qed

lemma foldl_invariant: "info_invariant ds \<Longrightarrow> info_invariant (foldl step ds as)"
  by (induction as arbitrary: ds) (simp_all add: step_invariant)

text \<open>
  C10. After every sequence of calls, signals and timer events on a new
  \<open>DomainServer\<close>, \<open>refusalInfo\<close> is empty unless the state is \<open>REFUSED\<close> and \<open>errorInfo\<close>
  is empty unless the state is \<open>ERROR\<close>. Every transition goes through \<open>#setState\<close>,
  which sets the state, clears both strings and stores its \<open>info\<close> only in the one that
  matches the new state.
\<close>

theorem C10_detail_strings_match_state:
  "(state (run as) \<noteq> REFUSED \<longrightarrow> refusalInfo (run as) = '''') \<and>
   (state (run as) \<noteq> ERROR \<longrightarrow> errorInfo (run as) = '''') \<and>
   state (setState st info ds) = st \<and>
   refusalInfo (setState st info ds) = (if st = REFUSED then info else '''') \<and>
   errorInfo (setState st info ds) = (if st = ERROR then info else '''')"
proof -
  have "info_invariant new_DomainServer"
    by (simp add: info_invariant_def new_DomainServer_def)
  then have "info_invariant (run as)"
    unfolding run_def by (rule foldl_invariant)
  then show ?thesis by (simp add: info_invariant_def setState_fields)
qed

text \<open>
  The witness run is refused, then fails for want of a location, then connects: in
  the end the state is \<open>CONNECTED\<close> and both strings, each set on the way, are empty.
\<close>

theorem C10_witness:
  "state (run refused_then_connected) \<noteq> REFUSED \<and>
   refusalInfo (run refused_then_connected) = '''' \<and>
   state (run refused_then_connected) \<noteq> ERROR \<and>
   errorInfo (run refused_then_connected) = '''' \<and>
   refusalInfo (run (take 3 refused_then_connected)) = ''Too many connected users'' \<and>
   errorInfo (run (take 4 refused_then_connected)) = ''No location specified.''"
proof -
  have s: "state (run refused_then_connected) = CONNECTED" by code_simp
  have r: "refusalInfo (run (take 3 refused_then_connected)) = ''Too many connected users''"
    by code_simp
  have e: "errorInfo (run (take 4 refused_then_connected)) = ''No location specified.''"
    by code_simp
  from C10_detail_strings_match_state [of refused_then_connected] s r e
  show ?thesis by simp
qed

end
